theory Spec2Isabelle
  imports Complex_Main
begin

section \<open>Errors and numbers\<close>

text \<open>
  The Python exceptions the modelled functions can raise. A function that can raise
  returns \<open>error + 'a\<close>, with \<open>Inl\<close> for the exception.
\<close>

datatype error = ValueError | TypeError | RuntimeError | IndexError | UnboundLocalError

text \<open>
  A tensor entry. The special values of the floating-point format are kept apart
  (\<open>PInf\<close>, \<open>NInf\<close>, \<open>NaN\<close>) and combine as IEEE 754 says; arithmetic on finite
  values is exact real arithmetic without rounding. \<open>max_float\<close> is the largest finite
  value of float32, the default type of the tensors: a result beyond it is an infinity
  (\<open>overflow\<close>). The overflow is written into \<open>torch.exp\<close> and into the arithmetic of
  \<open>format_durations\<close>; the other operations keep a finite result finite.
\<close>

datatype fl = Fin real | PInf | NInf | NaN

definition max_float :: real where
  "max_float = 340282346638528859811704183484516925440"


fun fneg :: "fl \<Rightarrow> fl" where
  "fneg (Fin a) = Fin (- a)"
| "fneg PInf = NInf"
| "fneg NInf = PInf"
| "fneg NaN = NaN"

fun fadd :: "fl \<Rightarrow> fl \<Rightarrow> fl" where
  "fadd (Fin a) (Fin b) = Fin (a + b)"
| "fadd NaN _ = NaN"
| "fadd _ NaN = NaN"
| "fadd PInf NInf = NaN"
| "fadd NInf PInf = NaN"
| "fadd PInf _ = PInf"
| "fadd _ PInf = PInf"
| "fadd NInf _ = NInf"
| "fadd _ NInf = NInf"

definition fsub :: "fl \<Rightarrow> fl \<Rightarrow> fl" where
  "fsub a b = fadd a (fneg b)"

fun fmul :: "fl \<Rightarrow> fl \<Rightarrow> fl" where
  "fmul (Fin a) (Fin b) = Fin (a * b)"
| "fmul NaN _ = NaN"
| "fmul _ NaN = NaN"
| "fmul PInf (Fin b) = (if b = 0 then NaN else if 0 < b then PInf else NInf)"
| "fmul NInf (Fin b) = (if b = 0 then NaN else if 0 < b then NInf else PInf)"
| "fmul (Fin a) PInf = (if a = 0 then NaN else if 0 < a then PInf else NInf)"
| "fmul (Fin a) NInf = (if a = 0 then NaN else if 0 < a then NInf else PInf)"
| "fmul PInf PInf = PInf"
| "fmul NInf NInf = PInf"
| "fmul PInf NInf = NInf"
| "fmul NInf PInf = NInf"

text \<open>A boolean mask entry used as a number: \<open>True\<close> is 1 and \<open>False\<close> is 0.\<close>

definition of_mask :: "bool \<Rightarrow> fl" where
  "of_mask m = (if m then Fin 1 else Fin 0)"

text \<open>The comparison \<open>x \<le> y\<close> of two entries; every comparison with \<open>NaN\<close> is false.\<close>

fun fle :: "fl \<Rightarrow> fl \<Rightarrow> bool" where
  "fle (Fin a) (Fin b) = (a \<le> b)"
| "fle NaN _ = False"
| "fle _ NaN = False"
| "fle NInf _ = True"
| "fle _ PInf = True"
| "fle _ _ = False"

text \<open>\<open>torch.sigmoid\<close>, \<open>torch.log\<close> and \<open>torch.exp\<close> on one entry.\<close>

fun sigmoid :: "fl \<Rightarrow> fl" where
  "sigmoid (Fin a) = Fin (1 / (1 + exp (- a)))"
| "sigmoid PInf = Fin 1"
| "sigmoid NInf = Fin 0"
| "sigmoid NaN = NaN"

fun flog :: "fl \<Rightarrow> fl" where
  "flog (Fin a) = (if 0 < a then Fin (ln a) else if a = 0 then NInf else NaN)"
| "flog PInf = PInf"
| "flog NInf = NaN"
| "flog NaN = NaN"

fun fexp :: "fl \<Rightarrow> fl" where
  "fexp (Fin a) = (if max_float < exp a then PInf else Fin (exp a))"
| "fexp PInf = PInf"
| "fexp NInf = Fin 0"
| "fexp NaN = NaN"

text \<open>
  The probability mass \<open>exp x\<close> of a log-probability entry as a real number
  (0 for \<open>NInf\<close>); used to state normalisation.
\<close>

fun mass :: "fl \<Rightarrow> real" where
  "mass (Fin a) = exp a"
| "mass _ = 0"

text \<open>\<open>torch.sum\<close> over one axis.\<close>

definition fsum :: "fl list \<Rightarrow> fl" where
  "fsum xs = foldl fadd (Fin 0) xs"

text \<open>
  \<open>torch.logsumexp\<close> over one axis: \<open>NaN\<close> and \<open>+inf\<close> entries take over, a
  row of \<open>-inf\<close> only (also the empty row) gives \<open>-inf\<close>, and otherwise the result is
  the logarithm of the summed exponentials.
\<close>

definition torch_logsumexp :: "fl list \<Rightarrow> fl" where
  "torch_logsumexp xs =
     (if NaN \<in> set xs then NaN
      else if PInf \<in> set xs then PInf
      else if list_all (\<lambda>x. x = NInf) xs then NInf
      else Fin (ln (sum_list (map mass xs))))"

text \<open>
  Modelled from the spec: \<open>logsumexp\<close> of \<open>TTS.tts.utils.helpers\<close> is not under src/;
  the spec names it log-sum-exp, the combination of log-probabilities.
\<close>

definition logsumexp :: "fl list \<Rightarrow> fl" where
  "logsumexp xs = torch_logsumexp xs"

section \<open>Tensors as nested lists\<close>

text \<open>
  A tensor of rank 2 is a list of rows of one length, a tensor of rank 3 a list of such
  tensors. Two shapes combine by broadcasting: along an axis the sizes are equal or one
  of them is 1, and anything else raises \<open>RuntimeError\<close>.
\<close>

definition width :: "'a list list \<Rightarrow> nat" where
  "width xs = (case xs of [] \<Rightarrow> 0 | r # _ \<Rightarrow> length r)"

definition bdim :: "nat \<Rightarrow> nat \<Rightarrow> nat option" where
  "bdim m n = (if m = n then Some m else if m = 1 then Some n else if n = 1 then Some m else None)"

definition pick :: "'a list \<Rightarrow> nat \<Rightarrow> 'a" where
  "pick xs i = xs ! (if length xs = 1 then 0 else i)"

definition bmap2 :: "('a \<Rightarrow> 'b \<Rightarrow> 'c) \<Rightarrow> 'a list list \<Rightarrow> 'b list list \<Rightarrow> error + 'c list list" where
  "bmap2 f a m =
     (case (bdim (length a) (length m), bdim (width a) (width m)) of
        (Some B, Some N) \<Rightarrow>
          Inr (map (\<lambda>b. map (\<lambda>i. f (pick (pick a b) i) (pick (pick m b) i)) [0..<N]) [0..<B])
      | _ \<Rightarrow> Inl RuntimeError)"

text \<open>
  \<open>Tensor.masked_fill\<close>: the tensor and the mask are broadcast against each other.
\<close>

definition masked_fill :: "fl list list \<Rightarrow> bool list list \<Rightarrow> fl \<Rightarrow> error + fl list list" where
  "masked_fill a m v = bmap2 (\<lambda>x b. if b then v else x) a m"

text \<open>\<open>Tensor.roll(1, dims=1)\<close> on one row: the last entry moves to the front.\<close>

definition roll1 :: "'a list \<Rightarrow> 'a list" where
  "roll1 xs = (if xs = [] then [] else last xs # butlast xs)"

text \<open>
  Modelled from the spec: \<open>sequence_mask\<close> of \<open>TTS.tts.utils.helpers\<close> is not under
  src/. The spec masks the positions at or beyond an item's valid length, so entry
  \<open>(b, i)\<close> of the mask says \<open>i < sequence_length[b]\<close>; without \<open>max_len\<close> the mask is
  as wide as the longest item of the batch (the maximum of an empty batch raises).
\<close>

definition max_list :: "int list \<Rightarrow> int" where
  "max_list xs = fold max (tl xs) (hd xs)"

definition sequence_mask :: "int list \<Rightarrow> nat option \<Rightarrow> error + bool list list" where
  "sequence_mask sequence_length max_len =
     (case max_len of
        Some n \<Rightarrow> Inr (map (\<lambda>l. map (\<lambda>i. int i < l) [0..<n]) sequence_length)
      | None \<Rightarrow>
          if sequence_length = [] then Inl RuntimeError
          else Inr (map (\<lambda>l. map (\<lambda>i. int i < l) [0..<nat (max_list sequence_length)])
                      sequence_length))"

section \<open>TransitionModel\<close>

text \<open>
  The model keeps the last staying and transition probabilities as attributes
  (\<open>_update_current_values\<close>).
\<close>

record TransitionModel =
  staying_p :: "fl list list option"
  transition_pr :: "fl list list option"

definition update_current_values ::
  "TransitionModel \<Rightarrow> fl list list \<Rightarrow> fl list list \<Rightarrow> TransitionModel" where
  "update_current_values self staying transitioning =
     self\<lparr>staying_p := Some staying, transition_pr := Some transitioning\<rparr>"

text \<open>
  \<open>TransitionModel.forward\<close>, lines 394 to 409. \<open>log_clamped\<close> of
  \<open>TTS.tts.utils.helpers\<close> is not under src/ and is a parameter of the model.
  \<open>transition_staying\<close> is the tensor \<open>staying\<close> of line 402 and \<open>transition_leaving\<close>
  the tensor \<open>leaving\<close> after line 405.
\<close>

definition transition_staying ::
  "(fl \<Rightarrow> fl) \<Rightarrow> fl list list \<Rightarrow> fl list list \<Rightarrow> error + fl list list" where
  "transition_staying log_clamped log_alpha_scaled transition_vector =
     (let staying_p = map (map (\<lambda>v. sigmoid (fneg v))) transition_vector;
          log_staying_probability = map (map log_clamped) staying_p
      in bmap2 fadd log_alpha_scaled log_staying_probability)"

definition transition_leaving ::
  "(fl \<Rightarrow> fl) \<Rightarrow> fl list list \<Rightarrow> fl list list \<Rightarrow> error + fl list list" where
  "transition_leaving log_clamped log_alpha_scaled transition_vector =
     (let transition_p = map (map sigmoid) transition_vector;
          log_transition_probability = map (map log_clamped) transition_p
      in case bmap2 fadd log_alpha_scaled log_transition_probability of
           Inl e \<Rightarrow> Inl e
         | Inr leaving \<Rightarrow>
             (let leaving = map roll1 leaving
              in if width leaving = 0 then Inl IndexError
                 else Inr (map (\<lambda>row. row[0 := NInf]) leaving)))"

definition TransitionModel_forward ::
  "(fl \<Rightarrow> fl) \<Rightarrow> TransitionModel \<Rightarrow> fl list list \<Rightarrow> fl list list \<Rightarrow> int list
     \<Rightarrow> error + (TransitionModel \<times> fl list list)" where
  "TransitionModel_forward log_clamped self log_alpha_scaled transition_vector inputs_len =
     (let transition_p = map (map sigmoid) transition_vector;
          staying_p = map (map (\<lambda>v. sigmoid (fneg v))) transition_vector;
          self = update_current_values self staying_p transition_p
      in case transition_staying log_clamped log_alpha_scaled transition_vector of
           Inl e \<Rightarrow> Inl e
         | Inr staying \<Rightarrow>
        (case transition_leaving log_clamped log_alpha_scaled transition_vector of
           Inl e \<Rightarrow> Inl e
         | Inr leaving \<Rightarrow>
        (case sequence_mask inputs_len None of
           Inl e \<Rightarrow> Inl e
         | Inr inputs_len_mask \<Rightarrow>
        (case bmap2 (\<lambda>s l. logsumexp [s, l]) staying leaving of
           Inl e \<Rightarrow> Inl e
         | Inr out \<Rightarrow>
        (case masked_fill out (map (map Not) inputs_len_mask) NInf of
           Inl e \<Rightarrow> Inl e
         | Inr out \<Rightarrow> Inr (self, out))))))"

definition rect :: "nat \<Rightarrow> nat \<Rightarrow> 'a list list \<Rightarrow> bool" where
  "rect B N xs = (length xs = B \<and> list_all (\<lambda>r. length r = N) xs)"

definition claimed_transition :: "(fl \<Rightarrow> fl) \<Rightarrow> fl list list \<Rightarrow> fl list list \<Rightarrow> int list \<Rightarrow> fl list list" where
  "claimed_transition log_clamped prev logit lens =
     map (\<lambda>b. map (\<lambda>i. if lens ! b \<le> int i then NInf
                        else logsumexp
                          [fadd (prev ! b ! i) (log_clamped (sigmoid (logit ! b ! i))),
                           if i = 0 then NInf
                           else fadd (prev ! b ! (i - 1)) (log_clamped (sigmoid (fneg (logit ! b ! (i - 1)))))])
                [0..<width prev]) [0..<length prev]"

definition is_logp :: "fl \<Rightarrow> bool" where
  "is_logp x = (x \<noteq> PInf \<and> x \<noteq> NaN)"

definition is_fin :: "fl \<Rightarrow> bool" where
  "is_fin x = (case x of Fin _ \<Rightarrow> True | _ \<Rightarrow> False)"

section \<open>EmissionModel\<close>

text \<open>Tensors of rank 3: the sizes of the second and third axis, and broadcasting.\<close>

definition depth :: "'a list list list \<Rightarrow> nat" where
  "depth xs = (case xs of [] \<Rightarrow> 0 | m # _ \<Rightarrow> width m)"

definition bmap3 ::
  "('a \<Rightarrow> 'b \<Rightarrow> 'c) \<Rightarrow> 'a list list list \<Rightarrow> 'b list list list \<Rightarrow> error + 'c list list list" where
  "bmap3 f a m =
     (case (bdim (length a) (length m), bdim (width a) (width m), bdim (depth a) (depth m)) of
        (Some B, Some N, Some D) \<Rightarrow>
          Inr (map (\<lambda>b. map (\<lambda>n. map (\<lambda>d. f (pick (pick (pick a b) n) d)
                                            (pick (pick (pick m b) n) d))
                                  [0..<D]) [0..<N]) [0..<B])
      | _ \<Rightarrow> Inl RuntimeError)"

text \<open>
  \<open>torch.distributions.Normal(loc, scale).log_prob(value)\<close> on one entry, for finite
  arguments and a positive scale. Outside of that the library's answer depends on its
  argument validation and is not modelled: the entry is \<open>NaN\<close>.
\<close>

definition normal_log_prob :: "fl \<Rightarrow> fl \<Rightarrow> fl \<Rightarrow> fl" where
  "normal_log_prob loc scale v =
     (case (loc, scale, v) of
        (Fin m, Fin s, Fin x) \<Rightarrow>
          if 0 < s then Fin (- ((x - m)\<^sup>2) / (2 * s\<^sup>2) - ln s - ln (sqrt (2 * pi))) else NaN
      | _ \<Rightarrow> NaN)"

text \<open>
  \<open>EmissionModel.forward\<close>, lines 441 to 445: \<open>x_t\<close> is (batch, feature),
  \<open>means\<close> and \<open>stds\<close> are (batch, state, feature). The mask of line 443 has rank 2 and
  is multiplied with the rank 3 tensor \<open>out\<close> as it is, so broadcasting aligns it with
  the last two axes of \<open>out\<close>.
\<close>

definition EmissionModel_forward ::
  "fl list list \<Rightarrow> fl list list list \<Rightarrow> fl list list list \<Rightarrow> int list \<Rightarrow> error + fl list list" where
  "EmissionModel_forward x_t means stds state_lengths =
     (case bmap3 Pair means stds of
        Inl e \<Rightarrow> Inl e
      | Inr emission_dists \<Rightarrow>
     (case bmap3 (\<lambda>(loc, scale) v. normal_log_prob loc scale v) emission_dists
             (map (\<lambda>row. [row]) x_t) of
        Inl e \<Rightarrow> Inl e
      | Inr out \<Rightarrow>
     (case sequence_mask state_lengths None of
        Inl e \<Rightarrow> Inl e
      | Inr state_lengths_mask \<Rightarrow>
     (case bmap3 (\<lambda>v m. fmul v (of_mask m)) out [state_lengths_mask] of
        Inl e \<Rightarrow> Inl e
      | Inr out \<Rightarrow> Inr (map (map fsum) out)))))"

text \<open>
  What the claim says \<open>EmissionModel.forward\<close> returns: for a valid state the log
  densities of the observation summed over the features, for a state at or beyond the
  item's valid length zero.
\<close>

definition claimed_emission ::
  "fl list list \<Rightarrow> fl list list list \<Rightarrow> fl list list list \<Rightarrow> int list \<Rightarrow> fl list list" where
  "claimed_emission x_t means stds state_lengths =
     map (\<lambda>b. map (\<lambda>n. if int n < state_lengths ! b
                        then fsum (map (\<lambda>d. normal_log_prob (means ! b ! n ! d) (stds ! b ! n ! d)
                                              (x_t ! b ! d)) [0..<length (x_t ! b)])
                        else Fin 0)
                [0..<width means]) [0..<length means]"

section \<open>HMM\<close>

text \<open>
  The attributes of an \<open>HMM\<close> object that the modelled methods read or write; field
  \<open>self_N\<close> is the attribute \<open>self.N\<close>, and so on.
\<close>

record HMM =
  self_N :: nat
  self_log_alpha_scaled :: "fl list list list"
  self_transition_vector :: "fl list list list"
  self_means :: "fl list list list list"
  self_transition_model :: TransitionModel

text \<open>\<open>HMM._mask_lengths\<close>, lines 140 to 144.\<close>

definition mask_lengths ::
  "'a HMM_scheme \<Rightarrow> int list \<Rightarrow> fl list list \<Rightarrow> error + ('a HMM_scheme \<times> fl list list)" where
  "mask_lengths self mel_inputs_lengths log_c =
     (case sequence_mask mel_inputs_lengths None of
        Inl e \<Rightarrow> Inl e
      | Inr mask_log_c \<Rightarrow>
     (case bmap2 (\<lambda>v m. fmul v (of_mask m)) log_c mask_log_c of
        Inl e \<Rightarrow> Inl e
      | Inr log_c \<Rightarrow>
     (let mask_log_alpha_scaled = map (map (\<lambda>m. [m])) mask_log_c
      in case bmap3 (\<lambda>v m. fmul v (of_mask m)) (self_log_alpha_scaled self) mask_log_alpha_scaled of
           Inl e \<Rightarrow> Inl e
         | Inr masked \<Rightarrow> Inr (self\<lparr>self_log_alpha_scaled := masked\<rparr>, log_c))))"

text \<open>
  \<open>torch.gather(x, 1, index)\<close> for the index tensor of lines 251 to 253, which holds
  \<open>idx[b]\<close> at every position \<open>(b, 0, k)\<close> with \<open>k < K\<close>, followed by \<open>squeeze(1)\<close>. An
  index outside of the second axis, and an index tensor larger than \<open>x\<close> along another
  axis, raise.
\<close>

definition gather_time :: "fl list list list \<Rightarrow> int list \<Rightarrow> nat \<Rightarrow> error + fl list list" where
  "gather_time x idx K =
     (if length idx \<le> length x \<and> K \<le> depth x \<and> list_all (\<lambda>j. 0 \<le> j \<and> j < int (width x)) idx
      then Inr (map (\<lambda>b. map (\<lambda>k. x ! b ! nat (idx ! b) ! k) [0..<K]) [0..<length idx])
      else Inl RuntimeError)"

text \<open>
  \<open>HMM.get_absorption_state_scaling_factor\<close>: \<open>absorption_final_log_c\<close> is the tensor
  \<open>final_log_c\<close> of line 269 (lines 248 to 269), and the method returns its
  \<open>torch.logsumexp\<close> over the states (line 274).
\<close>

definition absorption_final_log_c ::
  "(fl \<Rightarrow> fl) \<Rightarrow> 'a HMM_scheme \<Rightarrow> int list \<Rightarrow> fl list list list \<Rightarrow> int list \<Rightarrow> error + fl list list" where
  "absorption_final_log_c log_clamped self mels_len log_alpha_scaled inputs_len =
     (let max_inputs_len = depth log_alpha_scaled
      in case sequence_mask inputs_len (Some max_inputs_len) of
        Inl e \<Rightarrow> Inl e
      | Inr state_lengths_mask \<Rightarrow>
     (let last_log_alpha_scaled_index = map (\<lambda>l. l - 1) mels_len
      in case gather_time log_alpha_scaled last_log_alpha_scaled_index (self_N self) of
        Inl e \<Rightarrow> Inl e
      | Inr last_log_alpha_scaled \<Rightarrow>
     (case masked_fill last_log_alpha_scaled (map (map Not) state_lengths_mask) NInf of
        Inl e \<Rightarrow> Inl e
      | Inr last_log_alpha_scaled \<Rightarrow>
     (case gather_time (self_transition_vector self) last_log_alpha_scaled_index (self_N self) of
        Inl e \<Rightarrow> Inl e
      | Inr last_transition_vector \<Rightarrow>
     (let last_transition_probability = map (map sigmoid) last_transition_vector;
          log_probability_of_transitioning = map (map log_clamped) last_transition_probability;
          last_transition_probability_index =
            map (\<lambda>l. map (\<lambda>i. int i = l - 1) [0..<max_inputs_len]) inputs_len
      in case masked_fill log_probability_of_transitioning
                (map (map Not) last_transition_probability_index) NInf of
        Inl e \<Rightarrow> Inl e
      | Inr log_probability_of_transitioning \<Rightarrow>
          bmap2 fadd last_log_alpha_scaled log_probability_of_transitioning)))))"

definition get_absorption_state_scaling_factor ::
  "(fl \<Rightarrow> fl) \<Rightarrow> 'a HMM_scheme \<Rightarrow> int list \<Rightarrow> fl list list list \<Rightarrow> int list \<Rightarrow> error + fl list" where
  "get_absorption_state_scaling_factor log_clamped self mels_len log_alpha_scaled inputs_len =
     (case absorption_final_log_c log_clamped self mels_len log_alpha_scaled inputs_len of
        Inl e \<Rightarrow> Inl e
      | Inr final_log_c \<Rightarrow> Inr (map torch_logsumexp final_log_c))"

text \<open>
  Line 125 of \<open>HMM.forward\<close>: the sum of the masked \<open>log_c\<close> over the timesteps plus
  the absorption-state factor, one entry per batch item.
\<close>

definition bmap1 :: "('a \<Rightarrow> 'b \<Rightarrow> 'c) \<Rightarrow> 'a list \<Rightarrow> 'b list \<Rightarrow> error + 'c list" where
  "bmap1 f a m =
     (case bdim (length a) (length m) of
        Some B \<Rightarrow> Inr (map (\<lambda>b. f (pick a b) (pick m b)) [0..<B])
      | None \<Rightarrow> Inl RuntimeError)"

definition forward_log_probs :: "fl list list \<Rightarrow> fl list \<Rightarrow> error + fl list" where
  "forward_log_probs log_c sum_final_log_c = bmap1 fadd (map fsum log_c) sum_final_log_c"

definition rect3 :: "nat \<Rightarrow> nat \<Rightarrow> nat \<Rightarrow> 'a list list list \<Rightarrow> bool" where
  "rect3 B T N xs = (length xs = B \<and> list_all (rect T N) xs)"

section \<open>AlignTTS: durations\<close>

text \<open>
  The comparison \<open>x < y\<close> of two entries (false with \<open>NaN\<close>) and \<open>torch.round\<close>,
  which rounds a half to the even neighbour.
\<close>

fun flt :: "fl \<Rightarrow> fl \<Rightarrow> bool" where
  "flt (Fin a) (Fin b) = (a < b)"
| "flt NaN _ = False"
| "flt _ NaN = False"
| "flt NInf NInf = False"
| "flt NInf _ = True"
| "flt PInf _ = False"
| "flt _ PInf = True"
| "flt _ _ = False"







section \<open>HMM.sample\<close>

text \<open>
  What \<open>HMM.sample\<close> reads from the object besides the attributes above. The networks
  (\<open>self.prenet\<close>, \<open>self.memory_rnn\<close>, \<open>self.decoder\<close>) are not under src/ and are
  functions that may raise; the first two take a tensor of whatever rank the caller
  hands them. The two random draws (\<open>Normal(...).sample()\<close> and
  \<open>multinomial(1)\<close>) read and advance a generator state of type \<open>'r\<close>.
\<close>

datatype tensor = Rank1 "fl list" | Rank2 "fl list list" | Rank3 "fl list list list"

fun tensor_shape :: "tensor \<Rightarrow> nat list" where
  "tensor_shape (Rank1 v) = [length v]"
| "tensor_shape (Rank2 m) = [length m, width m]"
| "tensor_shape (Rank3 c) = [length c, width c, depth c]"

text \<open>\<open>Tensor.squeeze(0)\<close>: a first axis of size 1 is removed.\<close>

fun squeeze0 :: "tensor \<Rightarrow> tensor" where
  "squeeze0 (Rank3 [m]) = Rank2 m"
| "squeeze0 (Rank2 [v]) = Rank1 v"
| "squeeze0 x = x"

record 'r sampler = HMM +
  self_max_sampling_time :: "int option"
  self_go_tokens :: "fl list list"
  self_post_prenet_rnn_dim :: nat
  self_predict_means :: bool
  self_deterministic_transition :: bool
  self_duration_quantile_threshold :: fl
  self_prenet :: "tensor \<Rightarrow> error + tensor"
  self_memory_rnn ::
    "tensor \<Rightarrow> fl list list \<times> fl list list \<Rightarrow> error + (fl list list \<times> fl list list)"
  self_decoder ::
    "fl list list \<Rightarrow> fl list list list
       \<Rightarrow> error + (fl list list list \<times> fl list list list \<times> fl list list)"
  normal_sample :: "'r \<Rightarrow> fl list list list \<Rightarrow> fl list list list \<Rightarrow> error + (fl list list list \<times> 'r)"
  multinomial :: "'r \<Rightarrow> fl list \<Rightarrow> error + (nat \<times> 'r)"

text \<open>
  The local variables of \<open>sample\<close> that the loop reads and writes; \<open>smp_z\<close> is the
  list \<open>z\<close>, and so on. \<open>ar_mel_inputs\<close> is first assigned in line 326, inside the loop:
  until then the name is unbound (\<open>None\<close>). The number 1 that \<open>quantile\<close> starts from is
  the one-entry list.
\<close>

record 'r sample_state =
  smp_h_memory :: "fl list list"
  smp_c_memory :: "fl list list"
  smp_ar_mel_inputs :: "fl list list list option"
  smp_current_z_number :: nat
  smp_quantile :: "fl list"
  smp_z :: "nat list"
  smp_x :: "fl list list"
  smp_input_parameter_values :: "(fl list list list \<times> nat) list"
  smp_output_parameter_values :: "(fl list list list \<times> fl list list list \<times> fl list) list"
  smp_rng :: 'r

text \<open>\<open>HMM._init_lstm_states\<close>, lines 222 to 225.\<close>

definition init_lstm_states :: "nat \<Rightarrow> nat \<Rightarrow> fl list list \<times> fl list list" where
  "init_lstm_states batch_size hidden_state_dim =
     (replicate batch_size (replicate hidden_state_dim (Fin 0)),
      replicate batch_size (replicate hidden_state_dim (Fin 0)))"

text \<open>\<open>EmissionModel.sample\<close>, line 420.\<close>

definition EmissionModel_sample ::
  "('r \<Rightarrow> fl list list list \<Rightarrow> fl list list list \<Rightarrow> error + (fl list list list \<times> 'r))
     \<Rightarrow> 'r \<Rightarrow> fl list list list \<Rightarrow> fl list list list \<Rightarrow> fl
     \<Rightarrow> error + (fl list list list \<times> 'r)" where
  "EmissionModel_sample draw rng means stds sampling_temp =
     (if flt (Fin 0) sampling_temp
      then draw rng means (map (map (map (\<lambda>v. fmul v sampling_temp))) stds)
      else Inr (means, rng))"

text \<open>\<open>torch.cat((a, b), dim=1)\<close> of two tensors of rank 3.\<close>

definition cat1 :: "'a list list list \<Rightarrow> 'a list list list \<Rightarrow> error + 'a list list list" where
  "cat1 a b =
     (if length a = length b \<and> depth a = depth b then Inr (map2 (@) a b) else Inl RuntimeError)"

text \<open>
  The truth value of a tensor in \<open>if switch:\<close>; a tensor with no or with several
  entries raises.
\<close>

definition tensor_bool :: "bool list \<Rightarrow> error + bool" where
  "tensor_bool bs = (case bs of [b] \<Rightarrow> Inr b | _ \<Rightarrow> Inl RuntimeError)"

text \<open>
  Lines 310 to 341, one pass through the body of the loop. Line 319 reads
  \<open>ar_mel_inputs\<close>.
\<close>

definition sample_body ::
  "('r, 'a) sampler_scheme \<Rightarrow> fl list list list \<Rightarrow> fl \<Rightarrow> fl list list list
     \<Rightarrow> 'r sample_state \<Rightarrow> error + 'r sample_state" where
  "sample_body self inputs sampling_temp prenet_input s =
     (case self_prenet self (Rank3 [map concat prenet_input]) of
        Inl e \<Rightarrow> Inl e
      | Inr memory_input \<Rightarrow>
     (case self_memory_rnn self (squeeze0 memory_input) (smp_h_memory s, smp_c_memory s) of
        Inl e \<Rightarrow> Inl e
      | Inr (h_memory, c_memory) \<Rightarrow>
     (if width inputs \<le> smp_current_z_number s then Inl IndexError
      else let z_t = map (\<lambda>m. m ! smp_current_z_number s) inputs
      in case self_decoder self h_memory [z_t] of
        Inl e \<Rightarrow> Inl e
      | Inr (mean, std, transition_vector) \<Rightarrow>
     (let transition_probability = map sigmoid (concat transition_vector);
          staying_probability = map (\<lambda>v. sigmoid (fneg v)) (concat transition_vector)
      in case smp_ar_mel_inputs s of
        None \<Rightarrow> Inl UnboundLocalError
      | Some ar_mel_inputs \<Rightarrow>
     (let input_parameter_values =
            smp_input_parameter_values s @ [(ar_mel_inputs, smp_current_z_number s)];
          output_parameter_values =
            smp_output_parameter_values s @ [(mean, std, transition_probability)]
      in case (if self_predict_means self then Inr (mean, smp_rng s)
               else EmissionModel_sample (normal_sample self) (smp_rng s) mean std sampling_temp) of
        Inl e \<Rightarrow> Inl e
      | Inr (x_t, rng) \<Rightarrow>
     (case cat1 ar_mel_inputs x_t of
        Inl e \<Rightarrow> Inl e
      | Inr joined \<Rightarrow>
     (let ar_mel_inputs = map tl joined;
          x = smp_x s @ [concat (concat x_t)];
          transition_matrix = staying_probability @ transition_probability
      in case bmap1 fmul (smp_quantile s) staying_probability of
        Inl e \<Rightarrow> Inl e
      | Inr quantile \<Rightarrow>
     (case (if \<not> self_deterministic_transition self
            then (case multinomial self rng transition_matrix of
                    Inl e \<Rightarrow> Inl e
                  | Inr (k, rng) \<Rightarrow> Inr (k \<noteq> 0, rng))
            else (case tensor_bool
                         (map (\<lambda>q. flt q (self_duration_quantile_threshold self)) quantile) of
                    Inl e \<Rightarrow> Inl e
                  | Inr b \<Rightarrow> Inr (b, rng))) of
        Inl e \<Rightarrow> Inl e
      | Inr (switch, rng) \<Rightarrow>
     (let current_z_number =
            (if switch then smp_current_z_number s + 1 else smp_current_z_number s);
          quantile = (if switch then [Fin 1] else quantile)
      in Inr \<lparr>smp_h_memory = h_memory, smp_c_memory = c_memory,
              smp_ar_mel_inputs = Some ar_mel_inputs,
              smp_current_z_number = current_z_number, smp_quantile = quantile,
              smp_z = smp_z s @ [current_z_number], smp_x = x,
              smp_input_parameter_values = input_parameter_values,
              smp_output_parameter_values = output_parameter_values,
              smp_rng = rng\<rparr>)))))))))"

text \<open>
  The loop of lines 309 to 346 around a body: after a pass it stops when the hidden-state
  index equals \<open>N\<close>, or when \<open>T\<close> is set, not 0, and \<open>t = T - 1\<close> (line 343); otherwise
  \<open>t\<close> grows by one. An exception in the body ends it. The result is \<open>None\<close> when the
  loop runs forever, and otherwise the value of \<open>t\<close> at the exit, which is one less than
  the number of passes, with the state or the exception.
\<close>

definition truthy :: "int option \<Rightarrow> bool" where
  "truthy T = (case T of None \<Rightarrow> False | Some n \<Rightarrow> n \<noteq> 0)"

partial_function (option) sample_while ::
  "('s \<Rightarrow> error + 's) \<Rightarrow> ('s \<Rightarrow> nat) \<Rightarrow> nat \<Rightarrow> int option \<Rightarrow> nat \<Rightarrow> 's
     \<Rightarrow> (nat \<times> (error + 's)) option" where
  "sample_while body current N T t s =
     (case body s of
        Inl e \<Rightarrow> Some (t, Inl e)
      | Inr s' \<Rightarrow>
          if current s' = N \<or> (truthy T \<and> int t = the T - 1) then Some (t, Inr s')
          else sample_while body current N T (t + 1) s')"

text \<open>
  \<open>HMM.sample\<close>, lines 291 to 348; \<open>torch.stack(x)\<close> is the list of the emitted
  frames.
\<close>

definition sample ::
  "('r, 'a) sampler_scheme \<Rightarrow> fl list list list \<Rightarrow> fl \<Rightarrow> int option \<Rightarrow> 'r
     \<Rightarrow> (error + (fl list list \<times> nat list \<times> (fl list list list \<times> nat) list
                    \<times> (fl list list list \<times> fl list list list \<times> fl list) list)) option" where
  "sample self inputs sampling_temp T rng =
     (let T = (if \<not> truthy T then self_max_sampling_time self else T);
          N = width inputs;
          prenet_input = [self_go_tokens self];
          (h_memory, c_memory) = init_lstm_states 1 (self_post_prenet_rnn_dim self);
          s = \<lparr>smp_h_memory = h_memory, smp_c_memory = c_memory, smp_ar_mel_inputs = None,
               smp_current_z_number = 0, smp_quantile = [Fin 1], smp_z = [0], smp_x = [],
               smp_input_parameter_values = [], smp_output_parameter_values = [],
               smp_rng = rng\<rparr>
      in case sample_while (sample_body self inputs sampling_temp prenet_input)
                smp_current_z_number N T 0 s of
           None \<Rightarrow> None
         | Some (t, Inl e) \<Rightarrow> Some (Inl e)
         | Some (t, Inr s) \<Rightarrow>
             Some (Inr (smp_x s, smp_z s, smp_input_parameter_values s,
                        smp_output_parameter_values s)))"

text \<open>A sampler with constant networks, to run the definitions on.\<close>

definition demo_sampler :: "unit sampler" where
  "demo_sampler =
     \<lparr>self_N = 0, self_log_alpha_scaled = [], self_transition_vector = [], self_means = [],
      self_transition_model = \<lparr>staying_p = None, transition_pr = None\<rparr>,
      self_max_sampling_time = None, self_go_tokens = [[Fin 0]], self_post_prenet_rnn_dim = 1,
      self_predict_means = True, self_deterministic_transition = True,
      self_duration_quantile_threshold = Fin (1 / 2),
      self_prenet = (\<lambda>v. Inr v), self_memory_rnn = (\<lambda>v hc. Inr hc),
      self_decoder = (\<lambda>h z. Inr ([[[Fin 0]]], [[[Fin 1]]], [[Fin 0]])),
      normal_sample = (\<lambda>r m sd. Inr (m, r)), multinomial = (\<lambda>r p. Inr (0, r))\<rparr>"

section \<open>AlignTTS: monotonic alignment\<close>

text \<open>Division and the larger of two entries; \<open>torch.mean\<close> over one axis.\<close>

fun fdiv :: "fl \<Rightarrow> fl \<Rightarrow> fl" where
  "fdiv (Fin a) (Fin b) =
     (if b \<noteq> 0 then Fin (a / b) else if a = 0 then NaN else if 0 < a then PInf else NInf)"
| "fdiv NaN _ = NaN"
| "fdiv _ NaN = NaN"
| "fdiv (Fin a) _ = Fin 0"
| "fdiv PInf (Fin b) = (if 0 \<le> b then PInf else NInf)"
| "fdiv NInf (Fin b) = (if 0 \<le> b then NInf else PInf)"
| "fdiv _ _ = NaN"

definition fmax :: "fl \<Rightarrow> fl \<Rightarrow> fl" where
  "fmax a b = (if flt a b then b else a)"

definition fmean :: "fl list \<Rightarrow> fl" where
  "fmean xs = fdiv (fsum xs) (Fin (real (length xs)))"

text \<open>
  \<open>AlignTTS.compute_log_probs\<close>, lines 107 to 115: \<open>mu\<close> and \<open>log_sigma\<close> are
  (batch, feature, encoder position), \<open>y\<close> is (batch, feature, decoder frame); the result
  is (batch, encoder position, decoder frame).
\<close>

definition compute_log_probs ::
  "fl list list list \<Rightarrow> fl list list list \<Rightarrow> fl list list list \<Rightarrow> error + fl list list list" where
  "compute_log_probs mu log_sigma y =
     (let y = map transpose y; mu = map transpose mu; log_sigma = map transpose log_sigma
      in case (bdim (length y) (length mu), bdim (depth y) (depth mu)) of
           (Some B, Some D) \<Rightarrow>
             (case (bdim B (length log_sigma), bdim (width mu) (width log_sigma),
                    bdim D (depth log_sigma)) of
                (Some B, Some T2, Some D) \<Rightarrow>
                  Inr (map (\<lambda>b. map (\<lambda>i. map (\<lambda>j.
                         fsub (fmul (Fin (- (1 / 2)))
                                 (fmean (map (\<lambda>d.
                                    let e = fsub (pick (pick (pick y b) j) d) (pick (pick (pick mu b) i) d);
                                        s = fexp (pick (pick (pick log_sigma b) i) d)
                                    in fdiv (fmul e e) (fmul s s)) [0..<D])))
                              (fmul (Fin (1 / 2)) (fmean (pick (pick log_sigma b) i))))
                       [0..<width y]) [0..<T2]) [0..<B])
              | _ \<Rightarrow> Inl RuntimeError)
         | _ \<Rightarrow> Inl RuntimeError)"

text \<open>
  Modelled from the spec: \<open>maximum_path\<close> of \<open>TTS.tts.layers.glow_tts.monotonic_align\<close>
  is not under src/. The spec (4.5) names it the classic monotonic alignment search of
  flow-based TTS: dynamic programming for the non-decreasing, no-skip path through the
  (encoder position, decoder frame) matrix with the highest total log-probability.
  \<open>mas_q v x y\<close> is the best total of a path that starts at (0, 0) and ends at
  \<open>(x, y)\<close>, \<open>-inf\<close> where there is none. \<open>mas_backtrack\<close> reads the path off from the
  last frame to the first: the position steps down where it must (\<open>index = y\<close>) or where
  the path through the position below has the higher total; it returns the positions of
  the frames \<open>0\<close> to \<open>y\<close>. An item's valid lengths \<open>t_x\<close> and \<open>t_y\<close> are read from
  its mask, and the path starts from the last valid position at the last valid frame.
\<close>

fun mas_q :: "(nat \<Rightarrow> nat \<Rightarrow> fl) \<Rightarrow> nat \<Rightarrow> nat \<Rightarrow> fl" where
  "mas_q v x 0 = (if x = 0 then v 0 0 else NInf)"
| "mas_q v x (Suc y) =
     (if Suc y < x then NInf
      else fadd (fmax (if x = Suc y then NInf else mas_q v x y)
                      (if x = 0 then NInf else mas_q v (x - 1) y))
                (v x (Suc y)))"

fun mas_backtrack :: "(nat \<Rightarrow> nat \<Rightarrow> fl) \<Rightarrow> nat \<Rightarrow> nat \<Rightarrow> nat list" where
  "mas_backtrack q index 0 = [index]"
| "mas_backtrack q index (Suc y) =
     mas_backtrack q
       (if index \<noteq> 0 \<and> (index = Suc y \<or> flt (q index y) (q (index - 1) y)) then index - 1
        else index) y
     @ [index]"

definition maximum_path_each :: "fl list list \<Rightarrow> fl list list \<Rightarrow> fl list list" where
  "maximum_path_each val msk =
     (let t_x = length (filter (\<lambda>row. row \<noteq> [] \<and> hd row = Fin 1) msk);
          t_y = (case msk of [] \<Rightarrow> 0 | row # _ \<Rightarrow> length (filter (\<lambda>m. m = Fin 1) row));
          q = mas_q (\<lambda>x y. fmul (val ! x ! y) (msk ! x ! y));
          path = (if t_y = 0 then [] else mas_backtrack q (t_x - 1) (t_y - 1))
      in map (\<lambda>x. map (\<lambda>y. of_mask (x < t_x \<and> y < t_y \<and> path ! y = x)) [0..<width msk])
           [0..<length msk])"

definition maximum_path :: "fl list list list \<Rightarrow> fl list list list \<Rightarrow> fl list list list" where
  "maximum_path val msk = map2 maximum_path_each val msk"

text \<open>
  \<open>AlignTTS.compute_align_path\<close>, lines 119 to 124. \<open>x_mask\<close> and \<open>y_mask\<close> have the
  shapes (batch, 1, encoder positions) and (batch, 1, decoder frames), with the axis of
  size 1 left out as above. \<open>align_attn\<close> is the alignment \<open>attn\<close> of line 122 (with
  \<open>log_p\<close>), \<open>dr_mas\<close> its sums over the frames.
\<close>

definition align_attn ::
  "fl list list list \<Rightarrow> fl list list list \<Rightarrow> fl list list list \<Rightarrow> fl list list \<Rightarrow> fl list list
     \<Rightarrow> error + (fl list list list \<times> fl list list list)" where
  "align_attn mu log_sigma y x_mask y_mask =
     (case bdim (length x_mask) (length y_mask) of
        None \<Rightarrow> Inl RuntimeError
      | Some B \<Rightarrow>
     (let attn_mask = map (\<lambda>b. map (\<lambda>xm. map (\<lambda>ym. fmul xm ym) (pick y_mask b)) (pick x_mask b))
                        [0..<B]
      in case compute_log_probs mu log_sigma y of
        Inl e \<Rightarrow> Inl e
      | Inr log_p \<Rightarrow> Inr (maximum_path log_p attn_mask, log_p)))"

definition compute_align_path ::
  "fl list list list \<Rightarrow> fl list list list \<Rightarrow> fl list list list \<Rightarrow> fl list list \<Rightarrow> fl list list
     \<Rightarrow> error + (fl list list \<times> fl list list list)" where
  "compute_align_path mu log_sigma y x_mask y_mask =
     (case align_attn mu log_sigma y x_mask y_mask of
        Inl e \<Rightarrow> Inl e
      | Inr (attn, log_p) \<Rightarrow> (let dr_mas = map (map fsum) attn in Inr (dr_mas, log_p)))"

text \<open>
  The masks that \<open>_forward_encoder\<close> (line 181) and \<open>_forward_mdn\<close> (line 210) hand to
  \<open>compute_align_path\<close>: sequence masks of the valid lengths, as numbers.
\<close>

definition length_mask :: "int list \<Rightarrow> nat option \<Rightarrow> error + fl list list" where
  "length_mask lengths max_len =
     (case sequence_mask lengths max_len of
        Inl e \<Rightarrow> Inl e
      | Inr m \<Rightarrow> Inr (map (map of_mask) m))"

text \<open>
  The encoder positions that an alignment matrix (encoder position by decoder frame)
  gives to frame \<open>y\<close>.
\<close>

definition positions_of :: "fl list list \<Rightarrow> nat \<Rightarrow> nat list" where
  "positions_of attn y = filter (\<lambda>x. attn ! x ! y = Fin 1) [0..<length attn]"

text \<open>
  The mask of an item with \<open>xl\<close> valid encoder positions out of \<open>T_en\<close> and \<open>yl\<close>
  valid decoder frames out of \<open>T_de\<close>.
\<close>

definition seq_mask2 :: "nat \<Rightarrow> nat \<Rightarrow> nat \<Rightarrow> nat \<Rightarrow> fl list list" where
  "seq_mask2 xl yl T_en T_de = map (\<lambda>x. map (\<lambda>y. of_mask (x < xl \<and> y < yl)) [0..<T_de]) [0..<T_en]"

section \<open>HMM.forward\<close>

text \<open>
  What \<open>HMM.forward\<close> reads from the object besides the attributes above;
  \<open>self.output_net\<close> is a network that is not under src/, and
  \<open>checkpoint(self.output_net, h_memory, inputs)\<close> is its value at these arguments.
\<close>

record 'r HMM_net = "'r sampler" +
  self_ar_order :: nat
  self_frame_channels :: nat
  self_memory_rnn_dim :: nat
  self_output_net ::
    "fl list list \<Rightarrow> tensor \<Rightarrow> error + (fl list list list \<times> fl list list list \<times> fl list list)"

text \<open>\<open>HMM._initialize_log_state_priors\<close>, lines 357 to 359.\<close>

definition initialize_log_state_priors :: "nat \<Rightarrow> error + fl list" where
  "initialize_log_state_priors N =
     (let log_state_priors = replicate N NInf
      in if N = 0 then Inl IndexError else Inr (log_state_priors[0 := Fin 0]))"

text \<open>
  \<open>HMM._initialize_forward_algorithm_variables\<close>, lines 198 to 205: the object gets
  fresh tensors of zeros and an empty list of means, and \<open>log_c\<close> is returned.
\<close>

definition initialize_forward_algorithm_variables ::
  "'a HMM_scheme \<Rightarrow> fl list list list \<Rightarrow> 'a HMM_scheme \<times> fl list list" where
  "initialize_forward_algorithm_variables self mel_inputs =
     (let batch_size = length mel_inputs; T_max = width mel_inputs;
          zeros = replicate batch_size (replicate T_max (replicate (self_N self) (Fin 0)));
          log_c = replicate batch_size (replicate T_max (Fin 0))
      in (self\<lparr>self_log_alpha_scaled := zeros, self_means := [], self_transition_vector := zeros\<rparr>,
          log_c))"

text \<open>
  \<open>HMM._add_go_token\<close>, lines 184 to 187: the go tokens, of shape (ar_order, 1), are
  expanded to (batch, ar_order, frame_channels) and put in front of the frames; the
  first \<open>T\<close> timesteps are kept.
\<close>

definition add_go_token ::
  "('r, 'a) HMM_net_scheme \<Rightarrow> fl list list list \<Rightarrow> error + fl list list list" where
  "add_go_token self mel_inputs =
     (let batch_size = length mel_inputs; T = width mel_inputs
      in if length (self_go_tokens self) = self_ar_order self
            \<and> list_all (\<lambda>row. length row = 1) (self_go_tokens self)
         then (let go_tokens =
                     replicate batch_size
                       (map (\<lambda>row. replicate (self_frame_channels self) (hd row))
                          (self_go_tokens self))
               in case cat1 go_tokens mel_inputs of
                    Inl e \<Rightarrow> Inl e
                  | Inr joined \<Rightarrow> Inr (map (take T) joined))
         else Inl RuntimeError)"

text \<open>\<open>HMM._process_ar_timestep\<close>, lines 172 to 175.\<close>

definition process_ar_timestep ::
  "('r, 'a) HMM_net_scheme \<Rightarrow> nat \<Rightarrow> fl list list list \<Rightarrow> fl list list \<Rightarrow> fl list list
     \<Rightarrow> error + (fl list list \<times> fl list list)" where
  "process_ar_timestep self t ar_inputs h_memory c_memory =
     (let prenet_input = map (\<lambda>m. concat (take (self_ar_order self) (drop t m))) ar_inputs
      in case self_prenet self (Rank2 prenet_input) of
           Inl e \<Rightarrow> Inl e
         | Inr memory_inputs \<Rightarrow> self_memory_rnn self memory_inputs (h_memory, c_memory))"

text \<open>
  The assignments \<open>x[:, t] = v\<close> to a tensor of rank 2 and of rank 3: the timestep has
  to exist, and the value is broadcast to the shape of the slice.
\<close>

definition assign_col :: "fl list list \<Rightarrow> nat \<Rightarrow> fl list \<Rightarrow> error + fl list list" where
  "assign_col x t v =
     (if width x \<le> t then Inl IndexError
      else if length v = length x \<or> length v = 1
      then Inr (map (\<lambda>b. (x ! b)[t := pick v b]) [0..<length x])
      else Inl RuntimeError)"

definition assign_time :: "fl list list list \<Rightarrow> nat \<Rightarrow> fl list list \<Rightarrow> error + fl list list list" where
  "assign_time x t v =
     (if width x \<le> t then Inl IndexError
      else if (length v = length x \<or> length v = 1) \<and> (width v = depth x \<or> width v = 1)
      then Inr (map (\<lambda>b. (x ! b)[t := map (\<lambda>n. pick (pick v b) n) [0..<depth x]]) [0..<length x])
      else Inl RuntimeError)"

text \<open>The slice \<open>x[:, t]\<close> of a tensor of rank 3.\<close>

definition select_time :: "'a list list list \<Rightarrow> nat \<Rightarrow> error + 'a list list" where
  "select_time x t = (if width x \<le> t then Inl IndexError else Inr (map (\<lambda>m. m ! t) x))"

text \<open>
  Lines 104 to 119, one timestep of the loop. The state of the loop is the object, the
  tensor \<open>log_c\<close> and the state of the memory cell.
\<close>

definition forward_step ::
  "(fl \<Rightarrow> fl) \<Rightarrow> tensor \<Rightarrow> int list \<Rightarrow> fl list list list \<Rightarrow> fl list list list \<Rightarrow> fl list \<Rightarrow> nat
     \<Rightarrow> ('r, 'a) HMM_net_scheme \<times> fl list list \<times> fl list list \<times> fl list list
     \<Rightarrow> error + (('r, 'a) HMM_net_scheme \<times> fl list list \<times> fl list list \<times> fl list list)" where
  "forward_step log_clamped inputs inputs_len mels ar_inputs log_state_priors t st =
     (case st of (self, log_c, h_memory, c_memory) \<Rightarrow>
     (case process_ar_timestep self t ar_inputs h_memory c_memory of
        Inl e \<Rightarrow> Inl e
      | Inr (h_memory, c_memory) \<Rightarrow>
     (case self_output_net self h_memory inputs of
        Inl e \<Rightarrow> Inl e
      | Inr (mean, std, transition_vector) \<Rightarrow>
     (case (if t = 0
            then (case select_time mels 0 of
                    Inl e \<Rightarrow> Inl e
                  | Inr x_t \<Rightarrow>
                 (case EmissionModel_forward x_t mean std inputs_len of
                    Inl e \<Rightarrow> Inl e
                  | Inr emission \<Rightarrow>
                 (case bmap2 fadd [log_state_priors] emission of
                    Inl e \<Rightarrow> Inl e
                  | Inr log_alpha_temp \<Rightarrow> Inr (self, log_alpha_temp))))
            else (case select_time mels t of
                    Inl e \<Rightarrow> Inl e
                  | Inr x_t \<Rightarrow>
                 (case EmissionModel_forward x_t mean std inputs_len of
                    Inl e \<Rightarrow> Inl e
                  | Inr emission \<Rightarrow>
                 (case select_time (self_log_alpha_scaled self) (t - 1) of
                    Inl e \<Rightarrow> Inl e
                  | Inr previous \<Rightarrow>
                 (case TransitionModel_forward log_clamped (self_transition_model self)
                         previous transition_vector inputs_len of
                    Inl e \<Rightarrow> Inl e
                  | Inr (transition_model, transition) \<Rightarrow>
                 (case bmap2 fadd emission transition of
                    Inl e \<Rightarrow> Inl e
                  | Inr log_alpha_temp \<Rightarrow>
                      Inr (self\<lparr>self_transition_model := transition_model\<rparr>, log_alpha_temp))))))) of
        Inl e \<Rightarrow> Inl e
      | Inr (self, log_alpha_temp) \<Rightarrow>
     (case assign_col log_c t (map torch_logsumexp log_alpha_temp) of
        Inl e \<Rightarrow> Inl e
      | Inr log_c \<Rightarrow>
     (case bmap2 fsub log_alpha_temp (map (\<lambda>row. [row ! t]) log_c) of
        Inl e \<Rightarrow> Inl e
      | Inr scaled \<Rightarrow>
     (case assign_time (self_log_alpha_scaled self) t scaled of
        Inl e \<Rightarrow> Inl e
      | Inr log_alpha_scaled \<Rightarrow>
     (case assign_time (self_transition_vector self) t transition_vector of
        Inl e \<Rightarrow> Inl e
      | Inr transition_vectors \<Rightarrow>
          Inr (self\<lparr>self_log_alpha_scaled := log_alpha_scaled,
                    self_transition_vector := transition_vectors,
                    self_means := self_means self @ [mean]\<rparr>,
               log_c, h_memory, c_memory)))))))))"

fun forward_loop ::
  "(nat \<Rightarrow> 's \<Rightarrow> error + 's) \<Rightarrow> nat list \<Rightarrow> 's \<Rightarrow> error + 's" where
  "forward_loop step [] st = Inr st"
| "forward_loop step (t # ts) st =
     (case step t st of Inl e \<Rightarrow> Inl e | Inr st' \<Rightarrow> forward_loop step ts st')"

text \<open>
  A call of \<open>self._mask_lengths\<close> with a list of positional arguments. The method is
  defined with two parameters besides \<open>self\<close> (line 129), Python binds the arguments
  by position, and a call with another number of arguments raises \<open>TypeError\<close>.
\<close>

datatype arg = Frames "fl list list list" | Lengths "int list" | Matrix "fl list list"

definition call_mask_lengths ::
  "'a HMM_scheme \<Rightarrow> arg list \<Rightarrow> error + ('a HMM_scheme \<times> fl list list)" where
  "call_mask_lengths self args =
     (case args of
        [mel_inputs_lengths, log_c] \<Rightarrow>
          (case (mel_inputs_lengths, log_c) of
             (Lengths l, Matrix c) \<Rightarrow> mask_lengths self l c
           | _ \<Rightarrow> Inl TypeError)
      | _ \<Rightarrow> Inl TypeError)"

text \<open>
  \<open>HMM.forward\<close>, lines 89 to 127. Line 89 unpacks the shape of \<open>inputs\<close> into two
  names, and line 121 calls \<open>_mask_lengths\<close> with the three arguments \<open>mels\<close>,
  \<open>mel_lens\<close> and \<open>log_c\<close>.
\<close>

definition forward ::
  "(fl \<Rightarrow> fl) \<Rightarrow> ('r, 'a) HMM_net_scheme \<Rightarrow> tensor \<Rightarrow> int list \<Rightarrow> fl list list list \<Rightarrow> int list
     \<Rightarrow> error + (('r, 'a) HMM_net_scheme \<times> fl list)" where
  "forward log_clamped self inputs inputs_len mels mel_lens =
     (case tensor_shape inputs of
        [batch_size, N] \<Rightarrow>
          (let self = self\<lparr>self_N := N\<rparr>
           in if mel_lens = [] then Inl RuntimeError
           else let T_max = nat (max_list mel_lens);
                    mels = map transpose mels
           in case initialize_log_state_priors (self_N self) of
             Inl e \<Rightarrow> Inl e
           | Inr log_state_priors \<Rightarrow>
          (case initialize_forward_algorithm_variables self mels of (self, log_c) \<Rightarrow>
          (case add_go_token self mels of
             Inl e \<Rightarrow> Inl e
           | Inr ar_inputs \<Rightarrow>
          (case init_lstm_states batch_size (self_memory_rnn_dim self) of (h_memory, c_memory) \<Rightarrow>
          (case forward_loop
                  (forward_step log_clamped inputs inputs_len mels ar_inputs log_state_priors)
                  [0..<T_max] (self, log_c, h_memory, c_memory) of
             Inl e \<Rightarrow> Inl e
           | Inr (self, log_c, h_memory, c_memory) \<Rightarrow>
          (case call_mask_lengths self [Frames mels, Lengths mel_lens, Matrix log_c] of
             Inl e \<Rightarrow> Inl e
           | Inr (self, log_c) \<Rightarrow>
          (case get_absorption_state_scaling_factor log_clamped self mel_lens
                  (self_log_alpha_scaled self) inputs_len of
             Inl e \<Rightarrow> Inl e
           | Inr sum_final_log_c \<Rightarrow>
          (case forward_log_probs log_c sum_final_log_c of
             Inl e \<Rightarrow> Inl e
           | Inr log_probs \<Rightarrow> Inr (self, log_probs)))))))))
      | _ \<Rightarrow> Inl ValueError)"

text \<open>An object with constant networks, one state and one feature, to run \<open>forward\<close> on.\<close>

definition demo_net :: "unit HMM_net" where
  "demo_net =
     \<lparr>self_N = 0, self_log_alpha_scaled = [], self_transition_vector = [], self_means = [],
      self_transition_model = \<lparr>staying_p = None, transition_pr = None\<rparr>,
      self_max_sampling_time = None, self_go_tokens = [[Fin 0]], self_post_prenet_rnn_dim = 1,
      self_predict_means = True, self_deterministic_transition = True,
      self_duration_quantile_threshold = Fin (1 / 2),
      self_prenet = (\<lambda>v. Inr v), self_memory_rnn = (\<lambda>v hc. Inr hc),
      self_decoder = (\<lambda>h z. Inr ([[[Fin 0]]], [[[Fin 1]]], [[Fin 0]])),
      normal_sample = (\<lambda>r m sd. Inr (m, r)), multinomial = (\<lambda>r p. Inr (0, r)),
      self_ar_order = 1, self_frame_channels = 1, self_memory_rnn_dim = 1,
      self_output_net = (\<lambda>h i. Inr ([[[Fin 0]]], [[[Fin 1]]], [[Fin 0]]))\<rparr>"

section \<open>Properties of TransitionModel.forward\<close>

lemma pick_nth: "i < length xs \<Longrightarrow> pick xs i = xs ! i"
  by (auto simp: pick_def)

lemma rect_nth: "rect B N xs \<Longrightarrow> b < B \<Longrightarrow> length (xs ! b) = N"
  by (auto simp: rect_def list_all_length)

lemma rect_length: "rect B N xs \<Longrightarrow> length xs = B"
  by (simp add: rect_def)

lemma width_rect: "rect B N xs \<Longrightarrow> 0 < B \<Longrightarrow> width xs = N"
  by (cases xs) (auto simp: rect_def width_def)

lemma rect_map: "rect B N xs \<Longrightarrow> rect B N (map (map g) xs)"
  by (auto simp: rect_def list_all_length)

lemma rect_tab: "rect B N (map (\<lambda>b. map (f b) [0..<N]) [0..<B])"
  by (auto simp: rect_def list_all_length)

lemma bdim_same: "bdim n n = Some n"
  by (simp add: bdim_def)

lemma bmap2_rect:
  assumes "rect B N a" "rect B N m" "0 < B"
  shows "bmap2 f a m = Inr (map (\<lambda>b. map (\<lambda>i. f (a ! b ! i) (m ! b ! i)) [0..<N]) [0..<B])"
proof -
  have "map (\<lambda>b. map (\<lambda>i. f (pick (pick a b) i) (pick (pick m b) i)) [0..<N]) [0..<B]
      = map (\<lambda>b. map (\<lambda>i. f (a ! b ! i) (m ! b ! i)) [0..<N]) [0..<B]"
    using assms by (auto simp: pick_nth rect_nth rect_length)
  then show ?thesis
    using assms by (simp add: bmap2_def width_rect rect_length bdim_same)
qed

lemma masked_fill_rect:
  assumes "rect B N a" "rect B N m" "0 < B"
  shows "masked_fill a m v = Inr (map (\<lambda>b. map (\<lambda>i. if m ! b ! i then v else a ! b ! i) [0..<N]) [0..<B])"
proof -
  show ?thesis
    unfolding masked_fill_def bmap2_rect [OF assms] by (rule refl)
qed

lemma sequence_mask_None:
  assumes "lens \<noteq> []" "max_list lens = int N"
  shows "sequence_mask lens None = Inr (map (\<lambda>l. map (\<lambda>i. int i < l) [0..<N]) lens)"
  using assms by (simp add: sequence_mask_def)

lemma roll1_nth: "i < length xs \<Longrightarrow> roll1 xs ! i = (if i = 0 then last xs else xs ! (i - 1))"
  by (cases i) (auto simp: roll1_def nth_butlast)

lemma length_roll1: "length (roll1 xs) = length xs"
  by (cases xs) (auto simp: roll1_def)

lemma staying_rect:
  assumes "rect B N las" "rect B N tv" "0 < B"
  shows "transition_staying lc las tv
       = Inr (map (\<lambda>b. map (\<lambda>i. fadd (las ! b ! i) (lc (sigmoid (fneg (tv ! b ! i))))) [0..<N]) [0..<B])"
proof -
  have r: "rect B N (map (map lc) (map (map (\<lambda>v. sigmoid (fneg v))) tv))"
    using assms(2) by (intro rect_map)
  show ?thesis
    unfolding transition_staying_def Let_def bmap2_rect [OF assms(1) r assms(3)]
    using assms by (auto simp: rect_nth rect_length)
qed

lemma leaving_rect:
  assumes "rect B N las" "rect B N tv" "0 < B" "0 < N"
  shows "transition_leaving lc las tv
       = Inr (map (\<lambda>b. map (\<lambda>i. if i = 0 then NInf
                                 else fadd (las ! b ! (i - 1)) (lc (sigmoid (tv ! b ! (i - 1))))) [0..<N]) [0..<B])"
proof -
  have r: "rect B N (map (map lc) (map (map sigmoid) tv))"
    using assms(2) by (intro rect_map)
  let ?L = "map (\<lambda>b. map (\<lambda>i. fadd (las ! b ! i) (map (map lc) (map (map sigmoid) tv) ! b ! i)) [0..<N]) [0..<B]"
  have w: "width (map roll1 ?L) = N"
    using assms(3) by (intro width_rect [where B = B]) (auto simp: rect_def list_all_length length_roll1)
  have "map (\<lambda>row. row[0 := NInf]) (map roll1 ?L)
      = map (\<lambda>b. map (\<lambda>i. if i = 0 then NInf
                                 else fadd (las ! b ! (i - 1)) (lc (sigmoid (tv ! b ! (i - 1))))) [0..<N]) [0..<B]"
    using assms
    by (auto simp: list_eq_iff_nth_eq length_roll1 nth_list_update roll1_nth rect_nth rect_length)
  then show ?thesis
    unfolding transition_leaving_def Let_def bmap2_rect [OF assms(1) r assms(3)]
    using w assms(4) by simp
qed

lemma forward_rect:
  assumes "rect B N las" "rect B N tv" "length lens = B" "0 < B" "0 < N" "max_list lens = int N"
  shows "TransitionModel_forward lc self las tv lens =
      Inr (update_current_values self (map (map (\<lambda>v. sigmoid (fneg v))) tv) (map (map sigmoid) tv),
           map (\<lambda>b. map (\<lambda>i. if lens ! b \<le> int i then NInf
                              else logsumexp [fadd (las ! b ! i) (lc (sigmoid (fneg (tv ! b ! i)))),
                                              if i = 0 then NInf
                                              else fadd (las ! b ! (i - 1)) (lc (sigmoid (tv ! b ! (i - 1))))])
                      [0..<N]) [0..<B])"
proof -
  let ?S = "\<lambda>b i. fadd (las ! b ! i) (lc (sigmoid (fneg (tv ! b ! i))))"
  let ?L = "\<lambda>b i. if i = 0 then NInf else fadd (las ! b ! (i - 1)) (lc (sigmoid (tv ! b ! (i - 1))))"
  let ?O = "\<lambda>b i. logsumexp [?S b i, ?L b i]"
  let ?M = "map (map Not) (map (\<lambda>l. map (\<lambda>i. int i < l) [0..<N]) lens)"
  have ne: "lens \<noteq> []" using assms(3,4) by auto
  have m: "rect B N ?M"
    using assms(3) by (auto simp: rect_def list_all_length)
  have out: "bmap2 (\<lambda>s l. logsumexp [s, l])
        (map (\<lambda>b. map (?S b) [0..<N]) [0..<B]) (map (\<lambda>b. map (?L b) [0..<N]) [0..<B])
      = Inr (map (\<lambda>b. map (?O b) [0..<N]) [0..<B])"
    unfolding bmap2_rect [OF rect_tab rect_tab assms(4)] by simp
  have fill: "masked_fill (map (\<lambda>b. map (?O b) [0..<N]) [0..<B]) ?M NInf
      = Inr (map (\<lambda>b. map (\<lambda>i. if lens ! b \<le> int i then NInf else ?O b i) [0..<N]) [0..<B])"
    unfolding masked_fill_rect [OF rect_tab m assms(4)]
    using assms(3) by (auto simp: not_less)
  show ?thesis
    unfolding TransitionModel_forward_def Let_def
      staying_rect [OF assms(1,2,4)] leaving_rect [OF assms(1,2,4,5)]
      sequence_mask_None [OF ne assms(6)] sum.case out fill
    by (rule refl)
qed

lemma logsumexp_Fin_NInf: "logsumexp [Fin a, NInf] = Fin a"
  by (simp add: logsumexp_def torch_logsumexp_def)

text \<open>
  C3, as the claim states it: staying weighted by \<open>log(sigmoid(logit))\<close> and advancing by
  \<open>log(sigmoid(-logit))\<close> (\<open>claimed_transition\<close>). With one state, previous
  log-probability 0 and logit 1 the code returns \<open>log(sigmoid(-1))\<close> for state 0, the
  claimed tensor holds \<open>log(sigmoid(1))\<close>.
\<close>

theorem transition_signs_counterexample:
  "map_sum id snd (TransitionModel_forward flog \<lparr>staying_p = None, transition_pr = None\<rparr>
       [[Fin 0]] [[Fin 1]] [1])
   \<noteq> Inr (claimed_transition flog [[Fin 0]] [[Fin 1]] [1])"
proof -
  have p: "0 < 1 + exp (1::real)" "0 < 1 + exp (- 1::real)"
    by (simp_all add: add_pos_pos)
  have "(1::real) + exp 1 \<noteq> 1 + exp (- 1)" by simp
  with p have "1 / (1 + exp (1::real)) \<noteq> 1 / (1 + exp (- 1))"
    by (simp add: divide_simps)
  moreover have "0 < 1 / (1 + exp (1::real))" "0 < 1 / (1 + exp (- 1::real))"
    using p by simp_all
  ultimately have "ln (1 / (1 + exp (1::real))) \<noteq> ln (1 / (1 + exp (- 1)))"
    by (simp only: ln_inj_iff not_False_eq_True)
  then show ?thesis
    by (simp add: forward_rect [of 1 1] rect_def max_list_def claimed_transition_def width_def
        logsumexp_Fin_NInf add_pos_pos)
qed

text \<open>
  C3, amended: for a batch of \<open>B\<close> rows over \<open>N\<close> states, padded to its longest
  item, \<open>TransitionModel.forward\<close> computes the stay log-probability of state \<open>i\<close> as
  the previous log-probability plus \<open>log_clamped(sigmoid(-logit))\<close>, the advance
  log-probability as the previous log-probability of state \<open>i - 1\<close> plus
  \<open>log_clamped(sigmoid(logit))\<close> of state \<open>i - 1\<close> (\<open>-inf\<close> for state 0), and returns
  their log-sum-exp at every valid state.
\<close>

theorem transition_forward_stay_advance:
  assumes "rect B N alpha" "rect B N logit" "length inputs_len = B"
    "0 < B" "0 < N" "max_list inputs_len = int N"
  shows "\<exists>staying leaving self' out.
     transition_staying log_clamped alpha logit = Inr staying \<and>
     transition_leaving log_clamped alpha logit = Inr leaving \<and>
     TransitionModel_forward log_clamped self alpha logit inputs_len
       = Inr (self', out) \<and>
     (\<forall>b<B. \<forall>i<N.
        staying ! b ! i
          = fadd (alpha ! b ! i) (log_clamped (sigmoid (fneg (logit ! b ! i)))) \<and>
        leaving ! b ! i
          = (if i = 0 then NInf
             else fadd (alpha ! b ! (i - 1)) (log_clamped (sigmoid (logit ! b ! (i - 1))))) \<and>
        (int i < inputs_len ! b \<longrightarrow> out ! b ! i = logsumexp [staying ! b ! i, leaving ! b ! i]))"
  unfolding staying_rect [OF assms(1,2,4)] leaving_rect [OF assms(1,2,4,5)]
    forward_rect [OF assms]
  by simp

theorem transition_forward_stay_advance_witness:
  "\<exists>self' out.
     TransitionModel_forward flog \<lparr>staying_p = None, transition_pr = None\<rparr>
        [[Fin 0, NInf]] [[Fin 0, Fin 0]] [2] = Inr (self', out) \<and>
     out ! 0 ! 1 = logsumexp [fadd NInf (flog (sigmoid (fneg (Fin 0)))), fadd (Fin 0) (flog (sigmoid (Fin 0)))]"
  using transition_forward_stay_advance [of 1 2 "[[Fin 0, NInf]]" "[[Fin 0, Fin 0]]" "[2]" flog
      "\<lparr>staying_p = None, transition_pr = None\<rparr>"]
  by (auto simp: rect_def max_list_def)

text \<open>
  C6, as the claim states it, fails for a batch that is wider than its longest item: with
  two states and the one valid length 1 the mask of line 406 has one column, which line
  408 broadcasts over both states, and state 1 of the returned tensor is 0, not \<open>-inf\<close>.
\<close>

theorem transition_mask_counterexample:
  "map_sum id (\<lambda>(self, out). out ! 0 ! 1)
     (TransitionModel_forward flog \<lparr>staying_p = None, transition_pr = None\<rparr>
        [[Fin 0, Fin 0]] [[Fin 0, Fin 0]] [1])
   = Inr (Fin 0)"
proof -
  have "exp (ln (1 / 2 :: real)) = 1 / 2" by (subst exp_ln) simp_all
  then have "exp (ln (1 / 2 :: real)) + exp (ln (1 / 2)) = 1" by simp
  then show ?thesis
    by (simp add: TransitionModel_forward_def transition_staying_def transition_leaving_def
        sequence_mask_def max_list_def masked_fill_def bmap2_def bdim_def width_def pick_def
        roll1_def upt_rec [of 0 2] upt_rec [of 1 2] upt_rec [of 0 1]
        logsumexp_def torch_logsumexp_def update_current_values_def)
qed

text \<open>
  C6, amended: in \<open>TransitionModel.forward\<close> the advance (leaving) contribution into
  state 0 is \<open>-inf\<close> for every batch item; and when the batch is padded to its longest
  item (the tensors have as many states as the longest valid state length), every entry
  of the returned tensor at a state index at or beyond the item's valid state length is
  \<open>-inf\<close>.
\<close>

theorem transition_leaving_state0_and_mask:
  assumes "rect B N alpha" "rect B N logit" "0 < B" "0 < N"
  shows "(\<exists>leaving.
       transition_leaving log_clamped alpha logit = Inr leaving \<and>
       (\<forall>b<B. leaving ! b ! 0 = NInf)) \<and>
     (length inputs_len = B \<and> max_list inputs_len = int N \<longrightarrow>
       (\<exists>self' out.
          TransitionModel_forward log_clamped self alpha logit inputs_len = Inr (self', out) \<and>
          (\<forall>b<B. \<forall>i<N. inputs_len ! b \<le> int i \<longrightarrow> out ! b ! i = NInf)))"
proof (intro conjI impI)
  show "\<exists>leaving. transition_leaving log_clamped alpha logit = Inr leaving \<and>
       (\<forall>b<B. leaving ! b ! 0 = NInf)"
    unfolding leaving_rect [OF assms] using assms(4) by simp
next
  assume "length inputs_len = B \<and> max_list inputs_len = int N"
  then have l: "length inputs_len = B" "max_list inputs_len = int N" by simp_all
  show "\<exists>self' out.
          TransitionModel_forward log_clamped self alpha logit inputs_len = Inr (self', out) \<and>
          (\<forall>b<B. \<forall>i<N. inputs_len ! b \<le> int i \<longrightarrow> out ! b ! i = NInf)"
    unfolding forward_rect [OF assms(1,2) l(1) assms(3,4) l(2)] by simp
qed

theorem transition_leaving_state0_and_mask_witness:
  "\<exists>leaving self' out.
     transition_leaving flog [[Fin 0, Fin 0], [Fin 0, Fin 0]] [[Fin 0, Fin 0], [Fin 0, Fin 0]] = Inr leaving \<and>
     TransitionModel_forward flog \<lparr>staying_p = None, transition_pr = None\<rparr>
        [[Fin 0, Fin 0], [Fin 0, Fin 0]] [[Fin 0, Fin 0], [Fin 0, Fin 0]] [1, 2] = Inr (self', out) \<and>
     leaving ! 0 ! 0 = NInf \<and> leaving ! 1 ! 0 = NInf \<and> out ! 0 ! 1 = NInf"
proof -
  have r: "rect 2 2 [[Fin 0, Fin 0], [Fin 0, Fin 0]]" by (simp add: rect_def)
  have p: "(0::nat) < 2" by simp
  have l: "length [1, 2 :: int] = 2 \<and> max_list [1, 2] = int 2" by (simp add: max_list_def)
  note w = transition_leaving_state0_and_mask [OF r r p p, of flog "[1, 2]"
      "\<lparr>staying_p = None, transition_pr = None\<rparr>"]
  from w obtain leaving where 1:
    "transition_leaving flog [[Fin 0, Fin 0], [Fin 0, Fin 0]] [[Fin 0, Fin 0], [Fin 0, Fin 0]] = Inr leaving"
    "\<forall>b<2. leaving ! b ! 0 = NInf"
    by blast
  from w l obtain self' out where 2:
    "TransitionModel_forward flog \<lparr>staying_p = None, transition_pr = None\<rparr>
        [[Fin 0, Fin 0], [Fin 0, Fin 0]] [[Fin 0, Fin 0], [Fin 0, Fin 0]] [1, 2] = Inr (self', out)"
    "\<forall>b<2. \<forall>i<2. [1, 2] ! b \<le> int i \<longrightarrow> out ! b ! i = NInf"
    by blast
  from 1(2) have "leaving ! 0 ! 0 = NInf" "leaving ! 1 ! 0 = NInf" by simp_all
  moreover from 2(2) have "out ! 0 ! 1 = NInf" by force
  ultimately show ?thesis using 1(1) 2(1) by blast
qed

lemma fadd_logp:
  assumes "is_logp p" "fle q (Fin 0)"
  shows "is_logp (fadd p q) \<and> mass (fadd p q) \<le> mass p"
  using assms by (cases p; cases q) (auto simp: is_logp_def)

lemma sigmoid_unit: "\<exists>p. sigmoid (Fin a) = Fin p \<and> 0 < p \<and> p < 1"
  by (simp add: add_pos_pos)

lemma logsumexp_pair_le:
  assumes "is_logp s" "is_logp l" "mass s + mass l \<le> 1"
  shows "fle (logsumexp [s, l]) (Fin 0)"
proof (cases "s = NInf \<and> l = NInf")
  case True
  then show ?thesis by (simp add: logsumexp_def torch_logsumexp_def)
next
  case False
  have nn: "0 \<le> mass s" "0 \<le> mass l" by (cases s; simp)+ (cases l; simp)+
  have "0 < mass s + mass l"
    using False assms(1,2) by (cases s; cases l) (auto simp: is_logp_def add_pos_pos)
  then have "ln (mass s + mass l) \<le> 0"
    using assms(3) by simp
  then show ?thesis
    using False assms(1,2) by (auto simp: logsumexp_def torch_logsumexp_def is_logp_def)
qed

lemma mass_nonneg: "0 \<le> mass x"
  by (cases x) simp_all

lemma mass_pair_le_sum:
  assumes "i < length xs" "0 < i"
  shows "mass (xs ! i) + mass (xs ! (i - 1)) \<le> sum_list (map mass xs)"
proof -
  have "sum_list (map mass xs) = (\<Sum>j<length xs. mass (xs ! j))"
    by (simp add: sum_list_sum_nth atLeast0LessThan)
  moreover have "(\<Sum>j\<in>{i - 1, i}. mass (xs ! j)) \<le> (\<Sum>j<length xs. mass (xs ! j))"
    using assms by (intro sum_mono2) (auto simp: mass_nonneg)
  moreover have "(\<Sum>j\<in>{i - 1, i}. mass (xs ! j)) = mass (xs ! (i - 1)) + mass (xs ! i)"
    using assms by simp
  ultimately show ?thesis by simp
qed

lemma mass_single_le_sum:
  assumes "i < length xs"
  shows "mass (xs ! i) \<le> sum_list (map mass xs)"
proof -
  have "mass (xs ! i) \<in> set (map mass xs)" using assms by simp
  then show ?thesis
    by (intro member_le_sum_list) (auto simp: mass_nonneg)
qed

text \<open>
  C7: when the valid states of every previous scaled log-alpha row hold log-probabilities
  whose exponentials sum to at most 1, the transition logits are finite and \<open>log_clamped\<close>
  maps a probability to a non-positive value, every entry of the tensor returned by
  \<open>TransitionModel.forward\<close> at a valid state index is at most 0.
\<close>

theorem transition_forward_nonpositive:
  assumes shape: "rect B N alpha" "rect B N logit" "length inputs_len = B"
    "0 < B" "0 < N" "max_list inputs_len = int N"
    and logits: "list_all (list_all is_fin) logit"
    and clamp: "\<forall>p. 0 < p \<and> p < 1 \<longrightarrow> fle (log_clamped (Fin p)) (Fin 0)"
    and valid: "\<forall>b<B. list_all is_logp (take (nat (inputs_len ! b)) (alpha ! b)) \<and>
        sum_list (map mass (take (nat (inputs_len ! b)) (alpha ! b))) \<le> 1"
  shows "\<exists>self' out.
     TransitionModel_forward log_clamped self alpha logit inputs_len
       = Inr (self', out) \<and>
     (\<forall>b<B. \<forall>i<N. int i < inputs_len ! b \<longrightarrow> fle (out ! b ! i) (Fin 0))"
proof -
  have main: "fle (logsumexp [fadd (alpha ! b ! i)
                        (log_clamped (sigmoid (fneg (logit ! b ! i)))),
                     if i = 0 then NInf
                     else fadd (alpha ! b ! (i - 1))
                        (log_clamped (sigmoid (logit ! b ! (i - 1))))]) (Fin 0)"
    if b: "b < B" and i: "i < N" and v: "int i < inputs_len ! b" for b i
  proof -
    let ?row = "alpha ! b"
    let ?xs = "take (nat (inputs_len ! b)) ?row"
    have len: "length ?row = N" using shape(1) b by (rule rect_nth)
    have ixs: "i < length ?xs" using i v len by simp
    have nth: "?xs ! j = ?row ! j" if "j \<le> i" for j using that v by simp
    have lp: "is_logp (?row ! j)" if "j \<le> i" for j
    proof -
      have "is_logp (?xs ! j)"
        using valid b ixs that by (auto simp: list_all_length simp del: nth_take length_take)
      then show ?thesis using nth [OF that] by simp
    qed
    have tot: "sum_list (map mass ?xs) \<le> 1" using valid b by blast
    have fin: "is_fin (logit ! b ! j)" if "j < N" for j
      using logits shape(2) b that by (auto simp: list_all_length rect_def)
    have lc: "fle (log_clamped (sigmoid v)) (Fin 0)" if "is_fin v" for v
    proof -
      from that obtain a where a: "v = Fin a" by (cases v) (auto simp: is_fin_def)
      obtain p where "sigmoid (Fin a) = Fin p" "0 < p" "p < 1" using sigmoid_unit by blast
      then show ?thesis using clamp a by simp
    qed
    have lcn: "fle (log_clamped (sigmoid (fneg v))) (Fin 0)" if "is_fin v" for v
    proof -
      from that obtain a where a: "v = Fin a" by (cases v) (auto simp: is_fin_def)
      obtain p where "sigmoid (Fin (- a)) = Fin p" "0 < p" "p < 1" using sigmoid_unit by blast
      then show ?thesis using clamp a by simp
    qed
    let ?s = "fadd (?row ! i) (log_clamped (sigmoid (fneg (logit ! b ! i))))"
    have s: "is_logp ?s" "mass ?s \<le> mass (?row ! i)"
      using fadd_logp [OF lp [of i] lcn [OF fin [OF i]]] by simp_all
    show ?thesis
    proof (cases "i = 0")
      case True
      have "mass (?xs ! i) \<le> 1"
        using mass_single_le_sum [OF ixs] tot by linarith
      then have "mass ?s + mass NInf \<le> 1" using s(2) nth [of i] by simp
      then show ?thesis
        using True logsumexp_pair_le [OF s(1), of NInf] by (simp add: is_logp_def)
    next
      case False
      let ?l = "fadd (?row ! (i - 1)) (log_clamped (sigmoid (logit ! b ! (i - 1))))"
      have i1: "i - 1 < N" "i - 1 \<le> i" using i by simp_all
      have l: "is_logp ?l" "mass ?l \<le> mass (?row ! (i - 1))"
        using fadd_logp [OF lp [OF i1(2)] lc [OF fin [OF i1(1)]]] by simp_all
      have "mass (?xs ! i) + mass (?xs ! (i - 1)) \<le> 1"
        using mass_pair_le_sum [OF ixs] False tot by force
      then have "mass ?s + mass ?l \<le> 1"
        using s(2) l(2) nth [of i] nth [OF i1(2)] by simp
      then show ?thesis
        using False logsumexp_pair_le [OF s(1) l(1)] by simp
    qed
  qed
  define out where "out = map (\<lambda>b. map (\<lambda>i. if inputs_len ! b \<le> int i then NInf
                              else logsumexp [fadd (alpha ! b ! i)
                                    (log_clamped (sigmoid (fneg (logit ! b ! i)))),
                                  if i = 0 then NInf
                                  else fadd (alpha ! b ! (i - 1))
                                    (log_clamped (sigmoid (logit ! b ! (i - 1))))])
                      [0..<N]) [0..<B]"
  have fw: "TransitionModel_forward log_clamped self alpha logit inputs_len
      = Inr (update_current_values self (map (map (\<lambda>v. sigmoid (fneg v))) logit)
               (map (map sigmoid) logit), out)"
    unfolding out_def by (rule forward_rect [OF shape])
  have "fle (out ! b ! i) (Fin 0)" if "b < B" "i < N" "int i < inputs_len ! b" for b i
  proof -
    have "out ! b ! i = logsumexp [fadd (alpha ! b ! i)
                                    (log_clamped (sigmoid (fneg (logit ! b ! i)))),
                                  if i = 0 then NInf
                                  else fadd (alpha ! b ! (i - 1))
                                    (log_clamped (sigmoid (logit ! b ! (i - 1))))]"
      using that by (simp add: out_def)
    then show ?thesis using main [OF that] by simp
  qed
  then show ?thesis using fw by blast
qed

theorem transition_forward_nonpositive_witness:
  "\<exists>self' out.
     TransitionModel_forward flog \<lparr>staying_p = None, transition_pr = None\<rparr>
        [[Fin 0, NInf]] [[Fin 0, Fin 0]] [2] = Inr (self', out) \<and>
     fle (out ! 0 ! 0) (Fin 0) \<and> fle (out ! 0 ! 1) (Fin 0)"
proof -
  have c: "\<forall>p. 0 < p \<and> p < 1 \<longrightarrow> fle (flog (Fin p)) (Fin 0)"
    by simp
  show ?thesis
    using transition_forward_nonpositive [of 1 2 "[[Fin 0, NInf]]" "[[Fin 0, Fin 0]]" "[2]" flog
      "\<lparr>staying_p = None, transition_pr = None\<rparr>", OF _ _ _ _ _ _ _ c]
    by (auto simp: rect_def max_list_def is_fin_def is_logp_def)
qed

section \<open>Properties of EmissionModel.forward, of the masking and of the absorption state\<close>

lemma upt3: "[0..<3] = [0,1,2]" "[0..<2] = [0,1]" "[0..<1] = [0]"
  by (simp_all add: upt_rec)

text \<open>
  C8 says that \<open>EmissionModel.forward\<close> returns the (batch, num_states) tensor of summed
  log densities with the invalid states at zero. For one item with 2 states and 3
  features the product of line 444 raises instead: the mask of shape (1, 2) does not
  broadcast against \<open>out\<close> of shape (1, 2, 3).
\<close>

theorem emission_mask_rank_mismatch:
  "EmissionModel_forward [[Fin 0, Fin 0, Fin 0]]
     [[[Fin 0, Fin 0, Fin 0], [Fin 0, Fin 0, Fin 0]]]
     [[[Fin 1, Fin 1, Fin 1], [Fin 1, Fin 1, Fin 1]]] [2] = Inl RuntimeError"
  by (simp add: EmissionModel_forward_def bmap3_def bdim_def width_def depth_def pick_def
      sequence_mask_def max_list_def upt3)

lemma ln_sqrt_2pi_pos: "0 < ln (sqrt (2 * pi))"
proof -
  have "1 < 2 * pi" using pi_ge_two by linarith
  then have "1 < sqrt (2 * pi)" by simp
  then show ?thesis by simp
qed

text \<open>
  Where the shapes happen to broadcast (2 items, 2 states, 2 features, valid lengths 1
  and 2) the mask is applied along the feature axis: the code returns the first tensor,
  the claim describes the second.
\<close>

lemma emission_masks_features:
  "EmissionModel_forward [[Fin 0, Fin 0], [Fin 0, Fin 0]]
     [[[Fin 0, Fin 0], [Fin 0, Fin 0]], [[Fin 0, Fin 0], [Fin 0, Fin 0]]]
     [[[Fin 1, Fin 1], [Fin 1, Fin 1]], [[Fin 1, Fin 1], [Fin 1, Fin 1]]] [1, 2]
   = Inr [[Fin (- ln (sqrt (2 * pi))), Fin (- 2 * ln (sqrt (2 * pi)))],
          [Fin (- ln (sqrt (2 * pi))), Fin (- 2 * ln (sqrt (2 * pi)))]]"
  by (simp add: EmissionModel_forward_def bmap3_def bdim_def width_def depth_def pick_def
      sequence_mask_def max_list_def upt3 normal_log_prob_def of_mask_def fsum_def)

lemma claimed_emission_value:
  "claimed_emission [[Fin 0, Fin 0], [Fin 0, Fin 0]]
     [[[Fin 0, Fin 0], [Fin 0, Fin 0]], [[Fin 0, Fin 0], [Fin 0, Fin 0]]]
     [[[Fin 1, Fin 1], [Fin 1, Fin 1]], [[Fin 1, Fin 1], [Fin 1, Fin 1]]] [1, 2]
   = [[Fin (- 2 * ln (sqrt (2 * pi))), Fin 0],
      [Fin (- 2 * ln (sqrt (2 * pi))), Fin (- 2 * ln (sqrt (2 * pi)))]]"
  by (simp add: claimed_emission_def width_def upt3 normal_log_prob_def fsum_def)

lemma rect3_nth: "rect3 B T N xs \<Longrightarrow> b < B \<Longrightarrow> rect T N (xs ! b)"
  by (auto simp: rect3_def list_all_length)

lemma depth_rect3: "rect3 B T N xs \<Longrightarrow> 0 < B \<Longrightarrow> 0 < T \<Longrightarrow> depth xs = N"
  by (cases xs) (auto simp: rect3_def depth_def width_rect)

lemma width_rect3: "rect3 B T N xs \<Longrightarrow> 0 < B \<Longrightarrow> width xs = T"
  by (cases xs) (auto simp: rect3_def width_def rect_def)

lemma bdim_one: "bdim n (Suc 0) = Some n"
  by (simp add: bdim_def)

lemma bmap3_mask:
  assumes "rect3 B T N a" "rect3 B T 1 m" "0 < B" "0 < T"
  shows "bmap3 f a m
      = Inr (map (\<lambda>b. map (\<lambda>t. map (\<lambda>n. f (a ! b ! t ! n) (m ! b ! t ! 0)) [0..<N]) [0..<T]) [0..<B])"
proof -
  have la: "length (a ! b) = T" "length (a ! b ! t) = N" if "b < B" "t < T" for b t
    using rect3_nth [OF assms(1) that(1)] that(2) by (auto simp: rect_def list_all_length)
  have lm: "length (m ! b) = T" "length (m ! b ! t) = 1" if "b < B" "t < T" for b t
    using rect3_nth [OF assms(2) that(1)] that(2) by (auto simp: rect_def list_all_length)
  have len: "length a = B" "length m = B" using assms(1,2) by (simp_all add: rect3_def)
  have "map (\<lambda>b. map (\<lambda>n. map (\<lambda>d. f (pick (pick (pick a b) n) d) (pick (pick (pick m b) n) d))
              [0..<N]) [0..<T]) [0..<B]
      = map (\<lambda>b. map (\<lambda>t. map (\<lambda>n. f (a ! b ! t ! n) (m ! b ! t ! 0)) [0..<N]) [0..<T]) [0..<B]"
    using la lm len by (auto simp: pick_def)
  then show ?thesis
    using assms len
    by (simp add: bmap3_def depth_rect3 [OF assms(1)] depth_rect3 [OF assms(2)]
        width_rect3 [OF assms(1)] width_rect3 [OF assms(2)] bdim_same bdim_one)
qed

lemma fmul_mask_False: "fmul v (of_mask False) = (if is_fin v then Fin 0 else NaN)"
  by (cases v) (simp_all add: of_mask_def is_fin_def)

lemma mask_lengths_rect:
  assumes "rect B T log_c" "rect3 B T N (self_log_alpha_scaled self)" "length lens = B"
    "0 < B" "0 < T" "max_list lens = int T"
  shows "mask_lengths self lens log_c =
     Inr (self\<lparr>self_log_alpha_scaled :=
            map (\<lambda>b. map (\<lambda>t. map (\<lambda>n. fmul (self_log_alpha_scaled self ! b ! t ! n)
                                            (of_mask (int t < lens ! b))) [0..<N]) [0..<T]) [0..<B]\<rparr>,
          map (\<lambda>b. map (\<lambda>t. fmul (log_c ! b ! t) (of_mask (int t < lens ! b))) [0..<T]) [0..<B])"
proof -
  let ?M = "map (\<lambda>l. map (\<lambda>i. int i < l) [0..<T]) lens"
  have ne: "lens \<noteq> []" using assms(3,4) by auto
  have m: "rect B T ?M"
    using assms(3) by (auto simp: rect_def list_all_length)
  have m3: "rect3 B T 1 (map (map (\<lambda>m. [m])) ?M)"
    using assms(3) by (auto simp: rect3_def rect_def list_all_length)
  have c: "bmap2 (\<lambda>v m. fmul v (of_mask m)) log_c ?M
      = Inr (map (\<lambda>b. map (\<lambda>t. fmul (log_c ! b ! t) (of_mask (int t < lens ! b))) [0..<T]) [0..<B])"
    unfolding bmap2_rect [OF assms(1) m assms(4)] using assms(3) by simp
  have a: "bmap3 (\<lambda>v m. fmul v (of_mask m)) (self_log_alpha_scaled self) (map (map (\<lambda>m. [m])) ?M)
      = Inr (map (\<lambda>b. map (\<lambda>t. map (\<lambda>n. fmul (self_log_alpha_scaled self ! b ! t ! n)
                                            (of_mask (int t < lens ! b))) [0..<N]) [0..<T]) [0..<B])"
    unfolding bmap3_mask [OF assms(2) m3 assms(4,5)] using assms(3) by simp
  show ?thesis
    unfolding mask_lengths_def Let_def sequence_mask_None [OF ne assms(6)] sum.case c a
    by (rule refl)
qed

text \<open>
  C2, as the claim states it, fails in two ways. Where an entry is infinite: item 0 has
  valid length 1, its scaled log-alpha entry at timestep 1 and state 1 is \<open>-inf\<close> before
  the masking and \<open>NaN\<close> after it (\<open>-inf\<close> times 0), not zero. And where the tensors
  have more timesteps than the longest valid length: with two timesteps and the valid
  lengths 1 and 1 the mask of line 140 has one column, which lines 141 and 143 broadcast
  over both timesteps, and the entry 7 of \<open>log_c\<close> at timestep 1 stays 7.
\<close>

theorem mask_lengths_zero_counterexample:
  "map_sum id (\<lambda>(self, log_c). self_log_alpha_scaled self ! 0 ! 1 ! 1)
     (mask_lengths
        \<lparr>self_N = 2,
         self_log_alpha_scaled = [[[Fin 0, NInf], [Fin 0, NInf]], [[Fin 0, NInf], [Fin 0, Fin 0]]],
         self_transition_vector = [], self_means = [],
         self_transition_model = \<lparr>staying_p = None, transition_pr = None\<rparr>\<rparr>
        [1, 2] [[Fin 0, Fin 0], [Fin 0, Fin 0]])
   = Inr NaN \<and>
   map_sum id (\<lambda>(self, log_c). log_c ! 0 ! 1)
     (mask_lengths
        \<lparr>self_N = 1,
         self_log_alpha_scaled = [[[Fin 1], [Fin 2]], [[Fin 1], [Fin 2]]],
         self_transition_vector = [], self_means = [],
         self_transition_model = \<lparr>staying_p = None, transition_pr = None\<rparr>\<rparr>
        [1, 1] [[Fin 5, Fin 7], [Fin 5, Fin 7]])
   = Inr (Fin 7)"
  by (simp add: mask_lengths_def sequence_mask_def max_list_def bmap2_def bmap3_def bdim_def
      width_def depth_def pick_def upt3 of_mask_def)

text \<open>
  C2, amended: when \<open>log_c\<close> and the scaled log-alpha tensor have as many timesteps as
  the longest valid target length of the batch, then after \<open>_mask_lengths\<close>, for every
  batch item, every entry of \<open>log_c\<close> and of the scaled log-alpha tensor at a timestep
  greater than or equal to the item's valid target length is exactly zero if it was
  finite before the masking, and \<open>NaN\<close> if it was infinite or \<open>NaN\<close>.
\<close>

theorem mask_lengths_zero_finite:
  assumes "rect B T log_c" "rect3 B T N (self_log_alpha_scaled self)"
    "length mel_inputs_lengths = B" "0 < B" "0 < T" "max_list mel_inputs_lengths = int T"
  shows "\<exists>self' log_c'.
     mask_lengths self mel_inputs_lengths log_c = Inr (self', log_c') \<and>
     (\<forall>b<B. \<forall>t<T. mel_inputs_lengths ! b \<le> int t \<longrightarrow>
        log_c' ! b ! t = (if is_fin (log_c ! b ! t) then Fin 0 else NaN) \<and>
        (\<forall>n<N. self_log_alpha_scaled self' ! b ! t ! n
           = (if is_fin (self_log_alpha_scaled self ! b ! t ! n) then Fin 0 else NaN)))"
  unfolding mask_lengths_rect [OF assms]
  by (simp add: fmul_mask_False not_less [symmetric])

theorem mask_lengths_zero_finite_witness:
  "\<exists>self' log_c'.
     mask_lengths
        \<lparr>self_N = 2,
         self_log_alpha_scaled = [[[Fin 0, NInf], [Fin 3, NInf]], [[Fin 0, NInf], [Fin 0, Fin 0]]],
         self_transition_vector = [], self_means = [],
         self_transition_model = \<lparr>staying_p = None, transition_pr = None\<rparr>\<rparr>
        [1, 2] [[Fin 5, Fin 7], [Fin 0, Fin 0]] = Inr (self', log_c') \<and>
     log_c' ! 0 ! 1 = Fin 0 \<and> self_log_alpha_scaled self' ! 0 ! 1 ! 0 = Fin 0 \<and>
     self_log_alpha_scaled self' ! 0 ! 1 ! 1 = NaN"
  using mask_lengths_zero_finite [of 2 2 "[[Fin 5, Fin 7], [Fin 0, Fin 0]]" 2
        "\<lparr>self_N = 2,
         self_log_alpha_scaled = [[[Fin 0, NInf], [Fin 3, NInf]], [[Fin 0, NInf], [Fin 0, Fin 0]]],
         self_transition_vector = [], self_means = [],
         self_transition_model = \<lparr>staying_p = None, transition_pr = None\<rparr>\<rparr>" "[1, 2]"]
  by (auto simp: rect_def rect3_def max_list_def is_fin_def)

lemma logsumexp_all_NInf: "list_all (\<lambda>x. x = NInf) xs \<Longrightarrow> torch_logsumexp xs = NInf"
  by (auto simp: torch_logsumexp_def list_all_iff)

lemma fadd_NInf_right: "\<not> is_fin (fadd s NInf)" "is_logp s \<Longrightarrow> fadd s NInf = NInf"
  by (cases s; simp add: is_fin_def is_logp_def)+

text \<open>
  C9: when every state of the combined absorption-state tensor \<open>final_log_c\<close> of a batch
  item is \<open>-inf\<close>, \<open>get_absorption_state_scaling_factor\<close> returns \<open>-inf\<close> for that
  item and raises nothing; added to the item's summed \<open>log_c\<close> (line 125) it gives a
  log-probability that is not finite, and \<open>-inf\<close> whenever the sum is finite or \<open>-inf\<close>.
\<close>

theorem absorption_all_neg_inf:
  assumes "absorption_final_log_c log_clamped self mels_len alpha inputs_len = Inr final_log_c"
    and "b < length final_log_c"
    and "list_all (\<lambda>x. x = NInf) (final_log_c ! b)"
  shows "\<exists>sum_final_log_c.
     get_absorption_state_scaling_factor log_clamped self mels_len alpha inputs_len
       = Inr sum_final_log_c \<and>
     length sum_final_log_c = length final_log_c \<and>
     sum_final_log_c ! b = NInf \<and>
     (\<forall>log_c. length log_c = length sum_final_log_c \<longrightarrow>
        (\<exists>log_probs. forward_log_probs log_c sum_final_log_c = Inr log_probs \<and>
           \<not> is_fin (log_probs ! b) \<and>
           (is_logp (fsum (log_c ! b)) \<longrightarrow> log_probs ! b = NInf)))"
proof -
  let ?R = "map torch_logsumexp final_log_c"
  have r: "get_absorption_state_scaling_factor log_clamped self mels_len alpha inputs_len = Inr ?R"
    by (simp add: get_absorption_state_scaling_factor_def assms(1))
  have rb: "?R ! b = NInf"
    using assms(2,3) by (simp add: logsumexp_all_NInf)
  have "\<exists>log_probs. forward_log_probs log_c ?R = Inr log_probs \<and>
           \<not> is_fin (log_probs ! b) \<and>
           (is_logp (fsum (log_c ! b)) \<longrightarrow> log_probs ! b = NInf)"
    if "length log_c = length ?R" for log_c
  proof -
    have "forward_log_probs log_c ?R
        = Inr (map (\<lambda>b. fadd (pick (map fsum log_c) b) (pick ?R b)) [0..<length final_log_c])"
      using that by (simp add: forward_log_probs_def bmap1_def bdim_same)
    moreover have "pick (map fsum log_c) b = fsum (log_c ! b)" "pick ?R b = NInf"
      using that assms(2) rb by (simp_all add: pick_nth del: nth_map) (simp add: pick_nth)
    ultimately show ?thesis
      using assms(2) fadd_NInf_right by simp
  qed
  moreover have "length ?R = length final_log_c" by simp
  ultimately show ?thesis using r rb by blast
qed

theorem absorption_all_neg_inf_witness:
  "\<exists>sum_final_log_c log_probs.
     get_absorption_state_scaling_factor flog
        \<lparr>self_N = 2, self_log_alpha_scaled = [[[Fin 0, NInf]]],
         self_transition_vector = [[[Fin 0, Fin 0]]], self_means = [],
         self_transition_model = \<lparr>staying_p = None, transition_pr = None\<rparr>\<rparr>
        [1] [[[Fin 0, NInf]]] [2] = Inr sum_final_log_c \<and>
     sum_final_log_c ! 0 = NInf \<and>
     forward_log_probs [[Fin (- 3)]] sum_final_log_c = Inr log_probs \<and> log_probs ! 0 = NInf"
proof -
  let ?self = "\<lparr>self_N = 2, self_log_alpha_scaled = [[[Fin 0, NInf]]],
         self_transition_vector = [[[Fin 0, Fin 0]]], self_means = [],
         self_transition_model = \<lparr>staying_p = None, transition_pr = None\<rparr>\<rparr>"
  have f: "absorption_final_log_c flog ?self [1] [[[Fin 0, NInf]]] [2] = Inr [[NInf, NInf]]"
    by (simp add: absorption_final_log_c_def sequence_mask_def gather_time_def masked_fill_def
        bmap2_def bdim_def width_def depth_def pick_def upt3)
  obtain R where R: "get_absorption_state_scaling_factor flog ?self [1] [[[Fin 0, NInf]]] [2] = Inr R"
      "length R = length [[NInf, NInf]]" "R ! 0 = NInf"
      "\<forall>log_c. length log_c = length R \<longrightarrow>
        (\<exists>log_probs. forward_log_probs log_c R = Inr log_probs \<and>
           \<not> is_fin (log_probs ! 0) \<and>
           (is_logp (fsum (log_c ! 0)) \<longrightarrow> log_probs ! 0 = NInf))"
    using absorption_all_neg_inf [OF f, of 0] by auto
  have "length [[Fin (- 3)]] = length R" using R(2) by simp
  with R(4) obtain P where "forward_log_probs [[Fin (- 3)]] R = Inr P"
      "is_logp (fsum ([[Fin (- 3)]] ! 0)) \<longrightarrow> P ! 0 = NInf"
    by blast
  then show ?thesis
    using R(1,3) by (auto simp: fsum_def is_logp_def)
qed

section \<open>Properties of the durations\<close>










section \<open>Properties of HMM.sample\<close>

lemma sample_while_bound:
  assumes "int t < T"
  shows "\<exists>t' r. sample_while body current N (Some T) t s = Some (t', r) \<and> t \<le> t' \<and> int t' < T"
  using assms
proof (induction "nat T - t" arbitrary: t s)
  case 0
  then show ?case by simp
next
  case (Suc k)
  show ?case
  proof (cases "body s")
    case (Inl e)
    then show ?thesis
      using Suc.prems by (subst sample_while.simps) simp
  next
    case (Inr s')
    show ?thesis
    proof (cases "current s' = N \<or> (truthy (Some T) \<and> int t = the (Some T) - 1)")
      case True
      then show ?thesis
        using Inr Suc.prems by (subst sample_while.simps) simp
    next
      case False
      then have "int t \<noteq> T - 1"
        using Suc.prems by (auto simp: truthy_def)
      then have lt: "int (t + 1) < T" using Suc.prems by simp
      moreover have "k = nat T - (t + 1)" using Suc.hyps(2) by simp
      ultimately obtain t' r where
        "sample_while body current N (Some T) (t + 1) s' = Some (t', r)" "t + 1 \<le> t'" "int t' < T"
        using Suc.hyps(1) by blast
      then show ?thesis
        using Inr False by (subst sample_while.simps) auto
    qed
  qed
qed

lemma sample_while_stop:
  assumes "body s = Inr s'" "current s' = N"
  shows "sample_while body current N T t s = Some (t, Inr s')"
  using assms by (subst sample_while.simps) simp

lemma sample_body_unbound:
  assumes "smp_ar_mel_inputs s = None"
  shows "\<exists>e. sample_body self inputs sampling_temp prenet_input s = Inl e"
  using assms
  by (auto simp: sample_body_def Let_def split: sum.splits prod.splits)

text \<open>
  As written, the body reads \<open>ar_mel_inputs\<close> in line 319 before its first assignment
  in line 326, so the first pass ends with an exception whenever the networks do not
  raise one earlier, and \<open>sample\<close> returns no sample.
\<close>

lemma sample_first_pass_raises:
  "\<exists>e. sample self inputs sampling_temp T rng = Some (Inl e)"
proof -
  let ?T = "if \<not> truthy T then self_max_sampling_time self else T"
  obtain h c where hc: "init_lstm_states 1 (self_post_prenet_rnn_dim self) = (h, c)"
    by (cases "init_lstm_states 1 (self_post_prenet_rnn_dim self)")
  let ?s = "\<lparr>smp_h_memory = h, smp_c_memory = c, smp_ar_mel_inputs = None,
               smp_current_z_number = 0, smp_quantile = [Fin 1], smp_z = [0], smp_x = [],
               smp_input_parameter_values = [], smp_output_parameter_values = [],
               smp_rng = rng\<rparr>"
  obtain e where "sample_body self inputs sampling_temp [self_go_tokens self] ?s = Inl e"
    using sample_body_unbound [of ?s self inputs sampling_temp "[self_go_tokens self]"]
    by auto
  then have "sample_while (sample_body self inputs sampling_temp [self_go_tokens self])
       smp_current_z_number (width inputs) ?T 0 ?s = Some (0, Inl e)"
    by (subst sample_while.simps) simp
  then show ?thesis
    unfolding sample_def Let_def hc by simp
qed

text \<open>
  C4: with a maximum-timestep budget \<open>T > 0\<close> the loop of \<open>HMM.sample\<close> halts after
  at most \<open>T\<close> passes whatever its body does (the transition probabilities, the
  networks and the random draws), it stops in the pass in which the hidden-state index
  reaches the final state \<open>N\<close>, and \<open>sample\<close> itself returns.
\<close>

theorem sample_halts:
  assumes "0 < T"
  shows "(\<exists>t r. sample_while body current N (Some T) 0 s = Some (t, r) \<and> int t + 1 \<le> T) \<and>
     (\<forall>T' t s s'. body s = Inr s' \<and> current s' = N
        \<longrightarrow> sample_while body current N T' t s = Some (t, Inr s')) \<and>
     (\<exists>out. sample self inputs sampling_temp (Some T) rng = Some out)"
proof -
  have "int 0 < T" using assms by simp
  from sample_while_bound [OF this, of body current N s]
  have a: "\<exists>t r. sample_while body current N (Some T) 0 s = Some (t, r) \<and> int t + 1 \<le> T"
    by auto
  let ?s = "\<lparr>smp_h_memory = fst (init_lstm_states 1 (self_post_prenet_rnn_dim self)),
             smp_c_memory = snd (init_lstm_states 1 (self_post_prenet_rnn_dim self)),
             smp_ar_mel_inputs = None,
             smp_current_z_number = 0, smp_quantile = [Fin 1], smp_z = [0], smp_x = [],
             smp_input_parameter_values = [], smp_output_parameter_values = [],
             smp_rng = rng\<rparr>"
  have t: "truthy (Some T)" using assms by (simp add: truthy_def)
  obtain t' r where "sample_while (sample_body self inputs sampling_temp [self_go_tokens self])
       smp_current_z_number (width inputs) (Some T) 0 ?s = Some (t', r)"
    using sample_while_bound [OF \<open>int 0 < T\<close>,
        of "sample_body self inputs sampling_temp [self_go_tokens self]"
           smp_current_z_number "width inputs" ?s]
    by blast
  then have c: "\<exists>out. sample self inputs sampling_temp (Some T) rng = Some out"
    using t by (cases r) (simp_all add: sample_def Let_def case_prod_beta)
  have b: "\<forall>T' t s s'. body s = Inr s' \<and> current s' = N
        \<longrightarrow> sample_while body current N T' t s = Some (t, Inr s')"
    by (simp add: sample_while_stop)
  from a b c show ?thesis by (intro conjI)
qed

theorem sample_halts_witness:
  "(\<exists>t r. sample_while (\<lambda>s. Inr (s + 1)) (\<lambda>s. s) 7 (Some 3) 0 (0::nat) = Some (t, r) \<and> int t + 1 \<le> 3) \<and>
   sample_while (\<lambda>s. Inr (s + 1)) (\<lambda>s. s) 7 None 4 (6::nat) = Some (4, Inr 7) \<and>
   (\<exists>out. sample demo_sampler [[[Fin 0], [Fin 0]]] (Fin 1) (Some 3) () = Some out)"
proof -
  have h: "(0::int) < 3" by simp
  note w = sample_halts [OF h, of "\<lambda>s. Inr (s + 1)" "\<lambda>s. s" 7 "0::nat" demo_sampler
      "[[[Fin 0], [Fin 0]]]" "Fin 1" "()"]
  from w have 1: "\<exists>t r. sample_while (\<lambda>s. Inr (s + 1)) (\<lambda>s. s) 7 (Some 3) 0 (0::nat) = Some (t, r) \<and> int t + 1 \<le> 3"
    by (rule conjunct1)
  from w have 2: "\<forall>T' t s s'. Inr (s + 1) = (Inr s' :: error + nat) \<and> s' = 7
        \<longrightarrow> sample_while (\<lambda>s. Inr (s + 1)) (\<lambda>s. s) 7 T' t s = Some (t, Inr s')"
    by (rule conjunct2 [THEN conjunct1])
  from w have 3: "\<exists>out. sample demo_sampler [[[Fin 0], [Fin 0]]] (Fin 1) (Some 3) () = Some out"
    by (rule conjunct2 [THEN conjunct2])
  from 2 have "sample_while (\<lambda>s. Inr (s + 1)) (\<lambda>s. s) 7 None 4 (6::nat) = Some (4, Inr 7)"
    by simp
  with 1 3 show ?thesis by blast
qed

section \<open>Properties of the monotonic alignment\<close>

lemma length_mas_backtrack: "length (mas_backtrack q i y) = Suc y"
  by (induction y arbitrary: i) simp_all

lemma mas_backtrack_last: "mas_backtrack q i y ! y = i"
  by (cases y) (simp_all add: nth_append length_mas_backtrack)

lemma mas_backtrack_le: "k \<in> set (mas_backtrack q i y) \<Longrightarrow> k \<le> i"
proof (induction y arbitrary: i)
  case 0
  then show ?case by simp
next
  case (Suc y)
  then show ?case by (fastforce split: if_splits)
qed

lemma mas_backtrack_sorted: "sorted (mas_backtrack q i y)"
proof (induction y arbitrary: i)
  case 0
  then show ?case by simp
next
  case (Suc y)
  show ?case
    using Suc.IH mas_backtrack_le [of _ q _ y]
    by (fastforce simp: sorted_append split: if_splits)
qed

lemma mas_backtrack_first: "i \<le> y \<Longrightarrow> mas_backtrack q i y ! 0 = 0"
proof (induction y arbitrary: i)
  case 0
  then show ?case by simp
next
  case (Suc y)
  let ?i = "if i \<noteq> 0 \<and> (i = Suc y \<or> flt (q i y) (q (i - 1) y)) then i - 1 else i"
  have "?i \<le> y" using Suc.prems by auto
  from Suc.IH [OF this] show ?case
    by (simp add: nth_append length_mas_backtrack)
qed

lemma filter_lt_upt: "filter (\<lambda>i. i < n) [0..<m] = [0..<min n m]"
proof (induction m)
  case 0
  then show ?case by simp
next
  case (Suc m)
  show ?case
  proof (cases "m < n")
    case True
    then have "min n (Suc m) = Suc (min n m)" by simp
    then show ?thesis using Suc True by simp
  next
    case False
    then show ?thesis using Suc by (simp add: min_def)
  qed
qed

lemma filter_eq_upt:
  assumes "k < n"
  shows "filter (\<lambda>x. P x \<and> k = x) [0..<n] = (if P k then [k] else [])"
proof -
  have "filter (\<lambda>x. P x \<and> k = x) [0..<n] = filter P (filter (\<lambda>x. k = x) [0..<n])"
    by (simp add: conj_commute)
  moreover have "filter (\<lambda>x. k = x) [0..<n] = [k]"
    using assms
  proof (induction n)
    case 0
    then show ?case by simp
  next
    case (Suc n)
    show ?case
    proof (cases "k = n")
      case True
      have "filter (\<lambda>x. k = x) [0..<n] = []"
        using True by (auto simp: filter_empty_conv)
      then show ?thesis using True by simp
    next
      case False
      then show ?thesis using Suc by simp
    qed
  qed
  ultimately show ?thesis by simp
qed

lemma foldl_fadd_Fin: "foldl fadd (Fin a) (map (\<lambda>x. Fin (f x)) xs) = Fin (a + sum_list (map f xs))"
  by (induction xs arbitrary: a) (simp_all add: add.assoc)

lemma fsum_Fin: "fsum (map (\<lambda>x. Fin (f x)) xs) = Fin (sum_list (map f xs))"
  using foldl_fadd_Fin [of 0 f xs] by (simp add: fsum_def)

lemma of_mask_Fin: "of_mask p = Fin (if p then 1 else 0)"
  by (simp add: of_mask_def)

lemma fsum_of_mask: "fsum (map (\<lambda>x. of_mask (P x)) xs) = Fin (real (length (filter P xs)))"
proof -
  have "sum_list (map (\<lambda>x. if P x then 1 else 0 :: real) xs) = real (length (filter P xs))"
    by (induction xs) simp_all
  then show ?thesis
    using fsum_Fin [of "\<lambda>x. if P x then 1 else 0" xs] by (simp add: of_mask_Fin)
qed

lemma fibres_sum:
  assumes "\<forall>y\<in>set ys. f y < n"
  shows "(\<Sum>x\<leftarrow>[0..<n]. length (filter (\<lambda>y. f y = x) ys)) = length ys"
  using assms
proof (induction ys)
  case Nil
  then show ?case by simp
next
  case (Cons y ys)
  have one: "(\<Sum>x\<leftarrow>[0..<n]. if f y = x then 1 else 0 :: nat) = 1"
  proof -
    have "(\<Sum>x\<leftarrow>[0..<n]. if f y = x then 1 else 0 :: nat) = length (filter (\<lambda>x. True \<and> f y = x) [0..<n])"
      by (induction n) simp_all
    also have "\<dots> = 1" using Cons.prems by (subst filter_eq_upt) simp_all
    finally show ?thesis .
  qed
  have "(\<Sum>x\<leftarrow>[0..<n]. length (filter (\<lambda>y. f y = x) (y # ys)))
      = (\<Sum>x\<leftarrow>[0..<n]. (if f y = x then 1 else 0) + length (filter (\<lambda>y. f y = x) ys))"
    by (intro arg_cong [where f = sum_list] map_cong) auto
  also have "\<dots> = (\<Sum>x\<leftarrow>[0..<n]. if f y = x then 1 else 0) + (\<Sum>x\<leftarrow>[0..<n]. length (filter (\<lambda>y. f y = x) ys))"
    by (simp add: sum_list_addf)
  finally show ?case using one Cons by simp
qed

lemma le_max_list: "x \<in> set xs \<Longrightarrow> x \<le> max_list xs"
proof -
  have "a \<le> fold max ys a \<and> (\<forall>x\<in>set ys. x \<le> fold max ys a)" for ys and a :: int
  proof (induction ys arbitrary: a)
    case Nil
    then show ?case by simp
  next
    case (Cons y ys)
    from Cons [of "max y a"] show ?case by (auto simp: max_def split: if_splits)
  qed
  from this [of "hd xs" "tl xs"] show "x \<in> set xs \<Longrightarrow> x \<le> max_list xs"
    by (cases xs) (auto simp: max_list_def)
qed

lemma of_mask_eq_1 [simp]: "of_mask p = Fin 1 \<longleftrightarrow> p"
  by (simp add: of_mask_def)

lemma maximum_path_each_seq:
  assumes "1 \<le> xl" "xl \<le> T_en" "1 \<le> yl" "yl \<le> T_de"
  shows "maximum_path_each val (seq_mask2 xl yl T_en T_de)
       = map (\<lambda>x. map (\<lambda>y. of_mask (x < xl \<and> y < yl \<and>
               mas_backtrack (mas_q (\<lambda>x y. fmul (val ! x ! y) (seq_mask2 xl yl T_en T_de ! x ! y)))
                 (xl - 1) (yl - 1) ! y = x)) [0..<T_de]) [0..<T_en]"
proof -
  let ?m = "seq_mask2 xl yl T_en T_de"
  have en: "0 < T_en" and de: "0 < T_de" using assms by simp_all
  have "filter (\<lambda>row. row \<noteq> [] \<and> hd row = Fin 1) ?m
      = map (\<lambda>x. map (\<lambda>y. of_mask (x < xl \<and> y < yl)) [0..<T_de]) (filter (\<lambda>x. x < xl) [0..<T_en])"
    using de assms(3) by (simp add: seq_mask2_def filter_map comp_def hd_map)
  then have tx: "length (filter (\<lambda>row. row \<noteq> [] \<and> hd row = Fin 1) ?m) = xl"
    using assms(2) by (simp add: filter_lt_upt)
  have m0: "?m = map (\<lambda>y. of_mask (0 < xl \<and> y < yl)) [0..<T_de] # tl ?m"
    using en by (simp add: seq_mask2_def upt_conv_Cons)
  have "length (filter (\<lambda>m. m = Fin 1) (map (\<lambda>y. of_mask (0 < xl \<and> y < yl)) [0..<T_de]))
      = length (filter (\<lambda>y. y < yl) [0..<T_de])"
    using assms(1) by (simp add: filter_map comp_def)
  then have ty: "(case ?m of [] \<Rightarrow> 0 | row # _ \<Rightarrow> length (filter (\<lambda>m. m = Fin 1) row)) = yl"
    using assms(4) by (subst m0) (simp add: filter_lt_upt)
  have w: "width ?m = T_de" "length ?m = T_en"
    using en by (subst m0) (simp_all add: width_def seq_mask2_def)
  show ?thesis
    unfolding maximum_path_each_def Let_def tx ty w
    using assms(3) by simp
qed

lemma fmul_of_mask: "fmul (of_mask p) (of_mask q) = of_mask (p \<and> q)"
  by (simp add: of_mask_def)

lemma attn_mask_item:
  assumes "length x_lengths = B" "length y_lengths = B" "b < B"
    and "length_mask x_lengths (Some T_en) = Inr x_mask"
    and "length_mask y_lengths None = Inr y_mask"
  shows "map (\<lambda>b. map (\<lambda>xm. map (\<lambda>ym. fmul xm ym) (pick y_mask b)) (pick x_mask b)) [0..<B] ! b
       = seq_mask2 (nat (x_lengths ! b)) (nat (y_lengths ! b)) T_en (nat (max_list y_lengths))"
    and "bdim (length x_mask) (length y_mask) = Some B"
proof -
  have ne: "y_lengths \<noteq> []" using assms(2,3) by auto
  have xm: "x_mask = map (\<lambda>l. map (\<lambda>i. of_mask (int i < l)) [0..<T_en]) x_lengths"
    using assms(4) by (simp add: length_mask_def sequence_mask_def comp_def)
  have ym: "y_mask = map (\<lambda>l. map (\<lambda>i. of_mask (int i < l)) [0..<nat (max_list y_lengths)]) y_lengths"
    using assms(5) ne by (simp add: length_mask_def sequence_mask_def comp_def)
  show "bdim (length x_mask) (length y_mask) = Some B"
    using assms(1,2) by (simp add: xm ym bdim_def)
  have px: "pick x_mask b = map (\<lambda>i. of_mask (int i < x_lengths ! b)) [0..<T_en]"
    using assms(1,3) by (simp add: pick_nth xm)
  have py: "pick y_mask b = map (\<lambda>i. of_mask (int i < y_lengths ! b)) [0..<nat (max_list y_lengths)]"
    using assms(2,3) by (simp add: pick_nth ym)
  show "map (\<lambda>b. map (\<lambda>xm. map (\<lambda>ym. fmul xm ym) (pick y_mask b)) (pick x_mask b)) [0..<B] ! b
       = seq_mask2 (nat (x_lengths ! b)) (nat (y_lengths ! b)) T_en (nat (max_list y_lengths))"
    using assms(3)
    by (simp add: px py seq_mask2_def comp_def fmul_of_mask zless_nat_eq_int_zless)
qed

lemma maximum_path_each_no_frames:
  "maximum_path_each val (seq_mask2 xl 0 T_en T_de)
     = map (\<lambda>x. map (\<lambda>y. of_mask False) [0..<T_de]) [0..<T_en]"
proof (cases T_en)
  case 0
  then show ?thesis by (simp add: maximum_path_each_def seq_mask2_def)
next
  case (Suc n)
  let ?m = "seq_mask2 xl 0 T_en T_de"
  have en: "0 < T_en" using Suc by simp
  have m0: "?m = map (\<lambda>y. of_mask False) [0..<T_de] # tl ?m"
    using en by (simp add: seq_mask2_def upt_conv_Cons)
  have ty: "(case ?m of [] \<Rightarrow> 0 | row # _ \<Rightarrow> length (filter (\<lambda>m. m = Fin 1) row)) = 0"
    by (subst m0) (simp add: filter_map comp_def)
  have w: "width ?m = T_de" "length ?m = T_en"
    using en by (subst m0) (simp_all add: width_def seq_mask2_def)
  show ?thesis
    unfolding maximum_path_each_def Let_def ty w by simp
qed

lemma compute_log_probs_one_frame:
  "compute_log_probs [[[Fin 0, Fin 0]]] [[[Fin 0, Fin 0]]] [[[Fin 0]]] = Inr [[[Fin 0], [Fin 0]]]"
  by (simp add: compute_log_probs_def bdim_def depth_def width_def pick_def upt3
      fmean_def fsum_def fsub_def)

lemma compute_log_probs_three_frames:
  "compute_log_probs [[[Fin 0, Fin 0]]] [[[Fin 0, Fin 0]]] [[[Fin 0, Fin 0, Fin 0]]]
     = Inr [[[Fin 0, Fin 0, Fin 0], [Fin 0, Fin 0, Fin 0]]]"
  by (simp add: compute_log_probs_def bdim_def depth_def width_def pick_def upt3
      fmean_def fsum_def fsub_def)

text \<open>
  C5, as the claim states it for every input, fails in two ways. Where an item has more
  valid encoder positions than valid decoder frames the alignment does not start at
  position 0: with 2 positions and 1 frame the one frame is aligned to the last position 1
  (no alignment of one frame can both start at position 0 and end at position 1). And an
  item with no valid encoder position leaves its valid frame without any position.
\<close>

theorem align_path_start_counterexample:
  "length_mask [2] (Some 2) = Inr [[Fin 1, Fin 1]] \<and>
   length_mask [1] None = Inr [[Fin 1]] \<and>
   map_sum id (\<lambda>(attn, log_p). positions_of (attn ! 0) 0)
     (align_attn [[[Fin 0, Fin 0]]] [[[Fin 0, Fin 0]]] [[[Fin 0]]] [[Fin 1, Fin 1]] [[Fin 1]])
   = Inr [1] \<and>
   length_mask [0] (Some 2) = Inr [[Fin 0, Fin 0]] \<and>
   map_sum id (\<lambda>(attn, log_p). positions_of (attn ! 0) 0)
     (align_attn [[[Fin 0, Fin 0]]] [[[Fin 0, Fin 0]]] [[[Fin 0]]] [[Fin 0, Fin 0]] [[Fin 1]])
   = Inr []"
  by (simp add: length_mask_def sequence_mask_def max_list_def of_mask_def upt3
      align_attn_def bdim_def pick_def compute_log_probs_one_frame maximum_path_def maximum_path_each_def
      width_def positions_of_def)

text \<open>
  C5, amended: for every item whose valid encoder length is at least 1 and at most the
  padded encoder length, the alignment extracted by \<open>compute_align_path\<close> gives every
  valid decoder frame exactly one encoder position, the positions are non-decreasing in
  decoder time, and the durations \<open>dr_mas\<close> of the item sum exactly to its valid decoder
  length; if the item has a valid decoder frame the alignment ends at the last valid
  encoder position, and if its valid encoder length is at most its valid decoder length the
  alignment starts at position 0.
\<close>

theorem align_path_monotonic:
  assumes "length x_lengths = B" "length y_lengths = B" "b < B"
    and "length_mask x_lengths (Some T_en) = Inr x_mask"
    and "length_mask y_lengths None = Inr y_mask"
    and "compute_log_probs mu log_sigma y = Inr log_p" "length log_p = B"
    and "1 \<le> x_lengths ! b" "x_lengths ! b \<le> int T_en"
  shows "\<exists>attn dr_mas path.
     align_attn mu log_sigma y x_mask y_mask = Inr (attn, log_p) \<and>
     compute_align_path mu log_sigma y x_mask y_mask = Inr (dr_mas, log_p) \<and>
     length path = nat (y_lengths ! b) \<and>
     (\<forall>j < nat (y_lengths ! b). positions_of (attn ! b) j = [path ! j]) \<and>
     sorted path \<and>
     (x_lengths ! b \<le> y_lengths ! b \<longrightarrow> path ! 0 = 0) \<and>
     (1 \<le> y_lengths ! b \<longrightarrow> last path = nat (x_lengths ! b) - 1) \<and>
     fsum (dr_mas ! b) = Fin (real (nat (y_lengths ! b)))"
proof -
  define xl where "xl = nat (x_lengths ! b)"
  define yl where "yl = nat (y_lengths ! b)"
  define T_de where "T_de = nat (max_list y_lengths)"
  define msk where "msk = map (\<lambda>b. map (\<lambda>xm. map (\<lambda>ym. fmul xm ym) (pick y_mask b)) (pick x_mask b)) [0..<B]"
  define attn where "attn = maximum_path log_p msk"
  have "y_lengths ! b \<le> max_list y_lengths"
    using assms(2,3) by (intro le_max_list) simp
  then have l: "1 \<le> xl" "xl \<le> T_en" "yl \<le> T_de"
    using assms(8,9) by (simp_all add: xl_def yl_def T_de_def)
  note am = attn_mask_item [OF assms(1-5)]
  have mb: "msk ! b = seq_mask2 xl yl T_en T_de"
    unfolding msk_def xl_def yl_def T_de_def by (rule am(1))
  have aa: "align_attn mu log_sigma y x_mask y_mask = Inr (attn, log_p)"
    by (simp add: align_attn_def am(2) assms(6) attn_def msk_def)
  have cp: "compute_align_path mu log_sigma y x_mask y_mask = Inr (map (map fsum) attn, log_p)"
    by (simp add: compute_align_path_def aa)
  have lm: "length msk = B" by (simp add: msk_def)
  have ab0: "attn ! b = maximum_path_each (log_p ! b) (seq_mask2 xl yl T_en T_de)"
    using assms(3,7) lm by (simp add: attn_def maximum_path_def mb)
  have dr: "map (map fsum) attn ! b = map fsum (attn ! b)"
    using assms(3,7) lm by (simp add: attn_def maximum_path_def)
  show ?thesis
  proof (cases "yl = 0")
    case True
    have z: "attn ! b = map (\<lambda>x. map (\<lambda>y. of_mask False) [0..<T_de]) [0..<T_en]"
      unfolding ab0 True by (rule maximum_path_each_no_frames)
    have "map fsum (attn ! b) = map (\<lambda>x. Fin ((\<lambda>x. 0) x)) [0..<T_en]"
      unfolding z by (simp add: fsum_of_mask)
    then have "fsum (map fsum (attn ! b)) = Fin (sum_list (map (\<lambda>x. 0) [0..<T_en]))"
      by (simp only: fsum_Fin)
    then have tot: "fsum (map (map fsum) attn ! b) = Fin (real (nat (y_lengths ! b)))"
      using True by (simp add: dr yl_def)
    have y0: "nat (y_lengths ! b) = 0" using True by (simp add: yl_def)
    then have ny: "\<not> 1 \<le> y_lengths ! b" "\<not> x_lengths ! b \<le> y_lengths ! b"
      using assms(8) by simp_all
    have "length ([] :: nat list) = nat (y_lengths ! b) \<and>
       (\<forall>j < nat (y_lengths ! b). positions_of (attn ! b) j = [[] ! j]) \<and>
       sorted ([] :: nat list) \<and>
       (x_lengths ! b \<le> y_lengths ! b \<longrightarrow> ([] :: nat list) ! 0 = 0) \<and>
       (1 \<le> y_lengths ! b \<longrightarrow> last ([] :: nat list) = nat (x_lengths ! b) - 1)"
      using y0 ny by simp
    then show ?thesis using aa cp tot by blast
  next
    case False
    then have l3: "1 \<le> yl" by simp
    define path where "path = mas_backtrack
      (mas_q (\<lambda>x y. fmul (log_p ! b ! x ! y) (seq_mask2 xl yl T_en T_de ! x ! y))) (xl - 1) (yl - 1)"
    have ab: "attn ! b = map (\<lambda>x. map (\<lambda>y. of_mask (x < xl \<and> y < yl \<and> path ! y = x)) [0..<T_de]) [0..<T_en]"
      by (simp add: ab0 maximum_path_each_seq [OF l(1,2) l3 l(3)] path_def)
    have lp: "length path = yl"
      using l3 by (simp add: path_def length_mas_backtrack)
    have pl: "path ! j < xl" if "j < yl" for j
    proof -
      have "path ! j \<in> set path" using that lp by simp
      then have "path ! j \<le> xl - 1" unfolding path_def by (rule mas_backtrack_le)
      then show ?thesis using l(1) by simp
    qed
    have pos: "positions_of (attn ! b) j = [path ! j]" if "j < yl" for j
    proof -
      have "positions_of (attn ! b) j = filter (\<lambda>x. x < xl \<and> path ! j = x) [0..<T_en]"
        unfolding positions_of_def ab
        using that l(3) by (intro filter_cong) auto
      also have "\<dots> = [path ! j]"
        using pl [OF that] l(2) by (subst filter_eq_upt) simp_all
      finally show ?thesis .
    qed
    have srt: "sorted path" unfolding path_def by (rule mas_backtrack_sorted)
    have p0: "path ! 0 = 0" if "xl \<le> yl"
      unfolding path_def using l(1) l3 that by (intro mas_backtrack_first) simp
    have "path \<noteq> []" using lp l3 by auto
    then have "last path = path ! (yl - 1)"
      using lp by (simp add: last_conv_nth)
    then have pe: "last path = xl - 1"
      by (simp add: path_def mas_backtrack_last)
    have row: "map fsum (attn ! b) ! x = Fin (real (length (filter (\<lambda>y. path ! y = x) [0..<yl])))"
      if "x < T_en" for x
    proof -
      have "filter (\<lambda>y. x < xl \<and> y < yl \<and> path ! y = x) [0..<T_de]
          = filter (\<lambda>y. path ! y = x) (filter (\<lambda>y. y < yl) [0..<T_de])"
        using pl by (auto intro: filter_cong)
      also have "\<dots> = filter (\<lambda>y. path ! y = x) [0..<yl]"
        using l(3) by (simp add: filter_lt_upt)
      finally show ?thesis
        using that by (simp add: ab fsum_of_mask)
    qed
    have "map fsum (attn ! b) = map (\<lambda>x. Fin (real (length (filter (\<lambda>y. path ! y = x) [0..<yl])))) [0..<T_en]"
      using row by (auto simp: list_eq_iff_nth_eq ab)
    then have "fsum (map fsum (attn ! b))
        = Fin (\<Sum>x\<leftarrow>[0..<T_en]. real (length (filter (\<lambda>y. path ! y = x) [0..<yl])))"
      by (simp add: fsum_Fin)
    also have "(\<Sum>x\<leftarrow>[0..<T_en]. real (length (filter (\<lambda>y. path ! y = x) [0..<yl])))
        = real (\<Sum>x\<leftarrow>[0..<T_en]. length (filter (\<lambda>y. path ! y = x) [0..<yl]))"
      by (induction T_en) simp_all
    also have "(\<Sum>x\<leftarrow>[0..<T_en]. length (filter (\<lambda>y. path ! y = x) [0..<yl])) = length [0..<yl]"
      using pl l(2) by (intro fibres_sum) force
    finally have tot: "fsum (map (map fsum) attn ! b) = Fin (real yl)"
      by (simp add: dr)
    have p0': "x_lengths ! b \<le> y_lengths ! b \<longrightarrow> path ! 0 = 0"
      using p0 by (simp add: xl_def yl_def)
    show ?thesis
      using aa cp lp pos srt p0' pe tot unfolding xl_def yl_def by blast
  qed
qed

theorem align_path_monotonic_witness:
  "\<exists>attn dr_mas path.
     align_attn [[[Fin 0, Fin 0]]] [[[Fin 0, Fin 0]]] [[[Fin 0, Fin 0, Fin 0]]]
        [[Fin 1, Fin 1]] [[Fin 1, Fin 1, Fin 1]]
       = Inr (attn, [[[Fin 0, Fin 0, Fin 0], [Fin 0, Fin 0, Fin 0]]]) \<and>
     compute_align_path [[[Fin 0, Fin 0]]] [[[Fin 0, Fin 0]]] [[[Fin 0, Fin 0, Fin 0]]]
        [[Fin 1, Fin 1]] [[Fin 1, Fin 1, Fin 1]]
       = Inr (dr_mas, [[[Fin 0, Fin 0, Fin 0], [Fin 0, Fin 0, Fin 0]]]) \<and>
     length path = 3 \<and> positions_of (attn ! 0) 0 = [path ! 0] \<and>
     positions_of (attn ! 0) 2 = [path ! 2] \<and> sorted path \<and> path ! 0 = 0 \<and> last path = 1 \<and>
     fsum (dr_mas ! 0) = Fin 3"
proof -
  have x: "length_mask [2] (Some 2) = Inr [[Fin 1, Fin 1]]"
    by (simp add: length_mask_def sequence_mask_def of_mask_def upt3)
  have y: "length_mask [3] None = Inr [[Fin 1, Fin 1, Fin 1]]"
    by (simp add: length_mask_def sequence_mask_def max_list_def of_mask_def upt3)
  have h: "length [2::int] = 1" "length [3::int] = 1" "(0::nat) < 1"
      "length [[[Fin 0, Fin 0, Fin 0], [Fin 0, Fin 0, Fin 0]]] = 1"
      "1 \<le> [2::int] ! 0" "[2::int] ! 0 \<le> int 2"
    by simp_all
  from align_path_monotonic [OF h(1,2,3) x y compute_log_probs_three_frames h(4-6)]
  show ?thesis by (auto simp: )
qed

section \<open>HMM.forward as a whole\<close>

lemma call_mask_lengths_three: "call_mask_lengths self [a, b, c] = Inl TypeError"
  by (simp add: call_mask_lengths_def)

lemma forward_rank3: "forward log_clamped self (Rank3 c) inputs_len mels mel_lens = Inl ValueError"
  by (simp add: forward_def)

lemma forward_rank1: "forward log_clamped self (Rank1 c) inputs_len mels mel_lens = Inl ValueError"
  by (simp add: forward_def)

lemma forward_rank2: "\<exists>e. forward log_clamped self (Rank2 m) inputs_len mels mel_lens = Inl e"
  by (simp add: forward_def Let_def call_mask_lengths_three split: sum.splits prod.splits)

text \<open>
  With a matrix as \<open>inputs\<close> line 89 passes; one item with one state, one feature and
  one frame then runs through the loop and ends in line 121 with \<open>TypeError\<close>.
\<close>

lemma forward_demo_type_error:
  "forward flog demo_net (Rank2 [[Fin 0]]) [1] [[[Fin 0]]] [1] = Inl TypeError"
  by (simp add: forward_def Let_def initialize_log_state_priors_def
      initialize_forward_algorithm_variables_def add_go_token_def cat1_def init_lstm_states_def
      upt3 forward_step_def process_ar_timestep_def demo_net_def select_time_def
      width_def depth_def EmissionModel_forward_def bmap3_def bmap2_def bdim_def pick_def
      sequence_mask_def max_list_def normal_log_prob_def of_mask_def fsum_def
      assign_col_def assign_time_def torch_logsumexp_def fsub_def call_mask_lengths_three)

text \<open>
  C1 says that \<open>HMM.forward\<close> returns the summed \<open>log_c\<close> plus the absorption-state
  correction. For encoder outputs of the documented shape (batch, channels, length), here
  (1, 1, 1), line 89 raises \<open>ValueError\<close>; and for no input at all does \<open>forward\<close>
  return a value, since line 121 raises wherever the lines before it do not.
\<close>

theorem forward_raises:
  "forward log_clamped self (Rank3 [[[Fin 0]]]) [1] [[[Fin 0]]] [1] = Inl ValueError \<and>
   (\<exists>e. forward log_clamped self inputs inputs_len mels mel_lens = Inl e)"
  by (cases inputs) (simp_all add: forward_rank1 forward_rank2 forward_rank3)

end
